theory Spec2Isabelle
  imports Main "HOL-Library.Sublist"
begin

section \<open>Values, errors and effects\<close>

text \<open>
  The scripts of the repository are TypeScript programs that run on Node.  Their own logic
  is a network table, a retry loop, the extraction of wallet addresses from a CSV column
  and a batched mint loop; everything else is a call into an SDK.  The embedding keeps the
  scripts' control flow and makes the rest explicit:
  \<^item> a JavaScript string is a \<open>string\<close> (the model covers texts of 8-bit characters);
  \<^item> \<open>undefined\<close> is \<open>None\<close> of an option type;
  \<^item> a value produced by \<open>JSON.parse\<close> is a \<open>json\<close>; a number keeps its lexeme, since
    no script computes with it;
  \<^item> an exception is the \<open>Inl\<close> of a sum type;
  \<^item> console output, timers and SDK calls are events of a trace; a log entry keeps the
    fixed text of the message (in English where the source is not) and not the values
    printed with it;
  \<^item> the answer of an SDK call is read from a \<open>world\<close> record, indexed by the attempt or
    by the position of the recipient, so that every call of a run may answer differently.
\<close>

datatype json =
    JNull
  | JBool bool
  | JNum string
  | JStr string
  | JArr "json list"
  | JObj "(string \<times> json) list"

text \<open>
  The values thrown: the errors of the language, the \<open>Error\<close> objects the scripts build,
  the errors of the collaborators, which may carry \<open>transactionLogs\<close>, and a value a
  collaborator throws that is not an \<open>Error\<close> object.
\<close>

datatype error =
    TypeError string
  | SyntaxError string
  | Error string
  | Upstream string "string list option"
  | Thrown string

datatype event =
    Log string
  | Sleep nat
  | Call string "json option list"

type_synonym 'a io = "(error + 'a) \<times> event list"

definition io_return :: "'a \<Rightarrow> 'a io" where
  "io_return x = (Inr x, [])"

definition io_throw :: "error \<Rightarrow> 'a io" where
  "io_throw e = (Inl e, [])"

definition io_lift :: "error + 'a \<Rightarrow> 'a io" where
  "io_lift r = (r, [])"

definition emit :: "event \<Rightarrow> unit io" where
  "emit ev = (Inr (), [ev])"

definition call :: "string \<Rightarrow> json option list \<Rightarrow> error + 'a \<Rightarrow> 'a io" where
  "call nm args outcome = (outcome, [Call nm args])"

definition io_after :: "event list \<Rightarrow> 'a io \<Rightarrow> 'a io" where
  "io_after t m = (fst m, t @ snd m)"

definition io_bind :: "'a io \<Rightarrow> ('a \<Rightarrow> 'b io) \<Rightarrow> 'b io" where
  "io_bind m f = (case m of (Inl e, t) \<Rightarrow> (Inl e, t) | (Inr x, t) \<Rightarrow> io_after t (f x))"

definition io_then :: "unit io \<Rightarrow> 'b io \<Rightarrow> 'b io" where
  "io_then m n = io_bind m (\<lambda>_. n)"

definition io_catch :: "'a io \<Rightarrow> (error \<Rightarrow> 'a io) \<Rightarrow> 'a io" where
  "io_catch m h = (case m of (Inl e, t) \<Rightarrow> io_after t (h e) | (Inr x, t) \<Rightarrow> (Inr x, t))"

text \<open>Observations on a trace: the timers set, and the SDK calls of one name.\<close>

fun sleeps :: "event list \<Rightarrow> nat list" where
  "sleeps [] = []"
| "sleeps (Sleep ms # t) = ms # sleeps t"
| "sleeps (_ # t) = sleeps t"

fun calls :: "string \<Rightarrow> event list \<Rightarrow> json option list list" where
  "calls nm [] = []"
| "calls nm (Call nm' args # t) = (if nm' = nm then args # calls nm t else calls nm t)"
| "calls nm (_ # t) = calls nm t"

fun logged :: "event list \<Rightarrow> string list" where
  "logged [] = []"
| "logged (Log s # t) = s # logged t"
| "logged (_ # t) = logged t"

section \<open>The network table (\<open>src/index.ts\<close>, lines 11 to 35)\<close>

record NetworkConfig =
  rpcUrl :: string
  bundlrAddress :: string
  name :: string

definition mainnet :: NetworkConfig where
  "mainnet = \<lparr> rpcUrl = ''https://api.mainnet-beta.solana.com'',
               bundlrAddress = ''https://node1.bundlr.network'',
               name = ''Mainnet Beta'' \<rparr>"

definition devnet :: NetworkConfig where
  "devnet = \<lparr> rpcUrl = ''https://api.devnet.solana.com'',
              bundlrAddress = ''https://devnet.bundlr.network'',
              name = ''Devnet'' \<rparr>"

text \<open>
  \<open>NETWORK_CONFIGS[network]\<close> is a property read on an object literal.  The two keys of
  the literal are its own properties; the names every object inherits from
  \<open>Object.prototype\<close> are found too, and give a function or an object that is not a
  configuration; any other name gives \<open>undefined\<close>.
\<close>

datatype lookup = Own NetworkConfig | Inherited string | Undefined

definition Object_prototype :: "string list" where
  "Object_prototype =
     [''constructor'', ''__proto__'', ''hasOwnProperty'', ''isPrototypeOf'',
      ''propertyIsEnumerable'', ''toLocaleString'', ''toString'', ''valueOf'',
      ''__defineGetter__'', ''__defineSetter__'', ''__lookupGetter__'', ''__lookupSetter__'']"

definition NETWORK_CONFIGS :: "string \<Rightarrow> lookup" where
  "NETWORK_CONFIGS network =
     (if network = ''mainnet'' then Own mainnet
      else if network = ''devnet'' then Own devnet
      else if network \<in> set Object_prototype then Inherited network
      else Undefined)"

text \<open>\<open>process.argv[2] || 'devnet'\<close>: an absent argument and the empty string are both falsy.\<close>

definition select_network :: "string option \<Rightarrow> string" where
  "select_network arg = (case arg of None \<Rightarrow> ''devnet'' | Some tok \<Rightarrow> if tok = [] then ''devnet'' else tok)"

text \<open>
  Reading a field of the looked-up value.  On \<open>undefined\<close> the read throws a TypeError; on
  an inherited member the fields \<open>rpcUrl\<close> and \<open>bundlrAddress\<close> are \<open>undefined\<close>, and
  \<open>name\<close> is the function's name (\<open>undefined\<close> for the object \<open>__proto__\<close>).
\<close>

fun read_rpcUrl :: "lookup \<Rightarrow> error + string option" where
  "read_rpcUrl (Own c) = Inr (Some (rpcUrl c))"
| "read_rpcUrl (Inherited _) = Inr None"
| "read_rpcUrl Undefined = Inl (TypeError ''Cannot read properties of undefined (reading 'rpcUrl')'')"

fun read_bundlrAddress :: "lookup \<Rightarrow> error + string option" where
  "read_bundlrAddress (Own c) = Inr (Some (bundlrAddress c))"
| "read_bundlrAddress (Inherited _) = Inr None"
| "read_bundlrAddress Undefined =
     Inl (TypeError ''Cannot read properties of undefined (reading 'bundlrAddress')'')"

fun read_name :: "lookup \<Rightarrow> error + string option" where
  "read_name (Own c) = Inr (Some (name c))"
| "read_name (Inherited m) =
     Inr (if m = ''__proto__'' then None
          else if m = ''constructor'' then Some ''Object'' else Some m)"
| "read_name Undefined = Inl (TypeError ''Cannot read properties of undefined (reading 'name')'')"


section \<open>Start-up of the Metaplex scripts (\<open>src/index.ts\<close>, lines 32 to 68)\<close>

text \<open>
  The answers of the collaborators during start-up.  \<open>None\<close> is a call that returns,
  \<open>Some e\<close> one that throws \<open>e\<close>.  \<open>Metaplex.make(connection).use(...)\<close> only builds
  objects: of it the model keeps the reads of the configuration, in their order.
\<close>

record setup_world =
  new_Connection :: "string option \<Rightarrow> error option"
  bs58_decode :: "string \<Rightarrow> error option"
  Keypair_fromSecretKey :: "error option"

definition attempt :: "error option \<Rightarrow> error + unit" where
  "attempt r = (case r of None \<Rightarrow> Inr () | Some e \<Rightarrow> Inl e)"

text \<open>A variable of \<open>process.env\<close> is a string or \<open>undefined\<close>; both \<open>undefined\<close> and \<open>''\<close> are falsy.\<close>

definition env_truthy :: "string option \<Rightarrow> string option" where
  "env_truthy v = (case v of None \<Rightarrow> None | Some s \<Rightarrow> if s = [] then None else Some s)"

text \<open>\<open>process.env.SOLANA_RPC_URL || config.rpcUrl\<close>: the field is read only when the variable is falsy.\<close>

definition rpc_endpoint :: "(string \<rightharpoonup> string) \<Rightarrow> lookup \<Rightarrow> error + string option" where
  "rpc_endpoint env config =
     (case env_truthy (env ''SOLANA_RPC_URL'') of
        Some url \<Rightarrow> Inr (Some url)
      | None \<Rightarrow> read_rpcUrl config)"

definition wallet_key :: "(string \<rightharpoonup> string) \<Rightarrow> error + string" where
  "wallet_key env =
     (case env_truthy (env ''WALLET_PRIVATE_KEY'') of
        None \<Rightarrow> Inl (Error ''WALLET_PRIVATE_KEY is not set in .env file'')
      | Some key \<Rightarrow> Inr key)"

definition start_up :: "('w setup_world_scheme) \<Rightarrow> (string \<rightharpoonup> string) \<Rightarrow> string option \<Rightarrow> lookup io" where
  "start_up w env arg =
     (let network = select_network arg;
          config = NETWORK_CONFIGS network
      in io_bind (io_lift (rpc_endpoint env config)) (\<lambda>url.
         io_bind (call ''new Connection'' [] (attempt (new_Connection w url))) (\<lambda>_.
         io_bind (io_lift (wallet_key env)) (\<lambda>key.
         io_bind (call ''bs58.decode'' [] (attempt (bs58_decode w key))) (\<lambda>_.
         io_bind (call ''Keypair.fromSecretKey'' [] (attempt (Keypair_fromSecretKey w))) (\<lambda>_.
         io_bind (io_lift (read_bundlrAddress config)) (\<lambda>_.
         io_bind (io_lift (rpc_endpoint env config)) (\<lambda>_.
         io_then (emit (Log ''NFT minting environment is ready.'')) (
         io_then (emit (Log ''Wallet public key:'')) (
         io_bind (io_lift (read_name config)) (\<lambda>_.
         io_then (emit (Log ''Network:'')) (
         io_then (emit (Log ''Bundlr storage needs about 0.1 SOL'')) (
         io_bind (io_lift (rpc_endpoint env config)) (\<lambda>_.
         io_then (emit (Log ''RPC URL:'')) (
         io_return config)))))))))))))))"

section \<open>The retry loop (\<open>src/index.ts\<close>, lines 76 to 95 and 109 to 136)\<close>

text \<open>
  \<open>while (retryCount < maxRetries) { try { x = await op(); break } catch (error) {
  retryCount++; if (retryCount === maxRetries) throw error; log; await sleep(5000) } }\<close>.
  The body of the \<open>try\<close> is \<open>body retryCount\<close>; the loop returns the variable it assigns,
  \<open>None\<close> when it was never assigned.
\<close>

definition maxRetries :: nat where
  "maxRetries = 3"

function retry_loop :: "(nat \<Rightarrow> 'a io) \<Rightarrow> string \<Rightarrow> nat \<Rightarrow> nat \<Rightarrow> 'a option io" where
  "retry_loop body msg limit retryCount =
     (if retryCount < limit then
        (case body retryCount of
           (Inr v, t) \<Rightarrow> (Inr (Some v), t)
         | (Inl error, t) \<Rightarrow>
             if retryCount + 1 = limit then (Inl error, t)
             else io_after (t @ [Log msg, Sleep 5000]) (retry_loop body msg limit (retryCount + 1)))
      else (Inr None, []))"
  by pat_completeness auto
termination
  by (relation "measure (\<lambda>(body, msg, limit, retryCount). limit - retryCount)") auto

declare retry_loop.simps [simp del]

datatype nft = Nft (nft_address: string)

record index_world = setup_world +
  readFileSync_image :: "error option"
  storage_upload :: "nat \<Rightarrow> error + string"
  uploadMetadata :: "error + string"
  nfts_create :: "nat \<Rightarrow> error + nft"

text \<open>Lines 76 to 95: the upload of the image, with the guard \<open>if (!imageUri) throw\<close>.\<close>

definition upload_attempt :: "('w index_world_scheme) \<Rightarrow> nat \<Rightarrow> string io" where
  "upload_attempt w k =
     io_bind (call ''storage.upload'' [] (storage_upload w k)) (\<lambda>imageUri.
     io_then (emit (Log ''Image uploaded:'')) (io_return imageUri))"

definition upload_image :: "('w index_world_scheme) \<Rightarrow> string io" where
  "upload_image w =
     io_bind (retry_loop (upload_attempt w) ''Upload failed, retrying...'' maxRetries 0) (\<lambda>imageUri.
     case imageUri of
       None \<Rightarrow> io_throw (Error ''Failed to upload image after all retries'')
     | Some uri \<Rightarrow>
         if uri = [] then io_throw (Error ''Failed to upload image after all retries'')
         else io_return uri)"

text \<open>Lines 109 to 136: the mint, with the guard \<open>if (!nft) throw\<close>; an object is never falsy.\<close>

definition mint_attempt :: "('w index_world_scheme) \<Rightarrow> nat \<Rightarrow> nft io" where
  "mint_attempt w k = call ''nfts.create'' [] (nfts_create w k)"

definition mint_nft :: "('w index_world_scheme) \<Rightarrow> nft io" where
  "mint_nft w =
     io_bind (retry_loop (mint_attempt w) ''Minting failed, retrying...'' maxRetries 0) (\<lambda>nft.
     case nft of
       None \<Rightarrow> io_throw (Error ''Failed to mint NFT after all retries'')
     | Some n \<Rightarrow> io_return n)"

text \<open>
  \<open>main\<close> of \<open>src/index.ts\<close>.  The errors of the \<open>try\<close> block are logged by its \<open>catch\<close>;
  those of the start-up leave \<open>main\<close>.
\<close>

definition index_main :: "('w index_world_scheme) \<Rightarrow> (string \<rightharpoonup> string) \<Rightarrow> string option \<Rightarrow> unit io" where
  "index_main w env arg =
     io_bind (start_up w env arg) (\<lambda>config.
     io_catch
       (io_bind (call ''fs.readFileSync'' [] (attempt (readFileSync_image w))) (\<lambda>_.
        io_bind (upload_image w) (\<lambda>imageUri.
        io_bind (call ''nfts.uploadMetadata'' [] (uploadMetadata w)) (\<lambda>metadataUri.
        io_then (emit (Log ''Metadata uploaded:'')) (
        io_bind (mint_nft w) (\<lambda>nft.
        io_then (emit (Log ''NFT minted successfully!'')) (
        io_then (emit (Log ''NFT address:'')) (
        emit (Log ''NFT metadata:'')))))))))
       (\<lambda>error. emit (Log ''Error minting NFT:'')))"


section \<open>Normalising the \<open>linked_accounts\<close> text\<close>

text \<open>
  \<open>text.replace(/pat/g, rep)\<close> for a literal pattern: the text is scanned from the left,
  every match is replaced and the scan goes on behind the match.  The patterns of the
  scripts are not empty; on an empty pattern the model leaves the text as it is.
\<close>

function replaceAll :: "string \<Rightarrow> string \<Rightarrow> string \<Rightarrow> string" where
  "replaceAll pat rep [] = []"
| "replaceAll pat rep (c # cs) =
     (if pat \<noteq> [] \<and> prefix pat (c # cs)
      then rep @ replaceAll pat rep (drop (length pat) (c # cs))
      else c # replaceAll pat rep cs)"
  by pat_completeness auto
termination
  by (relation "measure (\<lambda>(pat, rep, s). length s)") auto

definition squote :: char where
  "squote = CHR 0x27"

definition dquote :: char where
  "dquote = CHR 0x22"

text \<open>\<open>unnamed/part_003\<close>, lines 47 to 51: quotes, then \<open>True\<close>, \<open>False\<close>, \<open>None\<close>.\<close>

definition normalizedJson :: "string \<Rightarrow> string" where
  "normalizedJson linkedAccounts =
     replaceAll ''None'' ''null''
       (replaceAll ''False'' ''false''
         (replaceAll ''True'' ''true''
           (replaceAll [squote] [dquote] linkedAccounts)))"

text \<open>\<open>unnamed/part_004\<close>, lines 161 to 165: quotes, then \<open>None\<close>, \<open>False\<close>, \<open>True\<close>.\<close>

definition jsonStr :: "string \<Rightarrow> string" where
  "jsonStr linked_accounts =
     replaceAll ''True'' ''true''
       (replaceAll ''False'' ''false''
         (replaceAll ''None'' ''null''
           (replaceAll [squote] [dquote] linked_accounts)))"

text \<open>A text occurs in another one: at its head, or further right.\<close>

fun occurs :: "string \<Rightarrow> string \<Rightarrow> bool" where
  "occurs q [] = (q = [])"
| "occurs q (c # cs) = (prefix q (c # cs) \<or> occurs q cs)"

section \<open>A reader for JSON texts\<close>

text \<open>
  \<open>JSON.parse\<close> is part of the platform.  The functions of the scripts take the parser as
  a parameter \<open>parse\<close>, and their properties hold for every parser.  The reader below
  follows the JSON grammar (ECMA-404) and stands for \<open>JSON.parse\<close> where a concrete text
  is evaluated.  An escape \<open>\uXXXX\<close> above 255 has no 8-bit character and is refused.
\<close>

datatype token =
    TLBrack | TRBrack | TLBrace | TRBrace | TComma | TColon
  | TStr string
  | TWord string

datatype lex_mode =
    Idle
  | InWord string
  | InStr string
  | InEsc string
  | InHex string string

definition is_space :: "char \<Rightarrow> bool" where
  "is_space c = (c \<in> set [CHR '' '', CHR 0x09, CHR 0x0A, CHR 0x0D])"

definition is_digit :: "char \<Rightarrow> bool" where
  "is_digit c = (c \<in> set ''0123456789'')"

definition is_word_char :: "char \<Rightarrow> bool" where
  "is_word_char c =
     (c \<in> set ''0123456789+-.abcdefghijklmnopqrstuvwxyzABCDEFGHIJKLMNOPQRSTUVWXYZ'')"

definition hex_value :: "char \<Rightarrow> nat option" where
  "hex_value c =
     map_of (zip ''0123456789abcdefABCDEF''
               [0, 1, 2, 3, 4, 5, 6, 7, 8, 9, 10, 11, 12, 13, 14, 15, 10, 11, 12, 13, 14, 15]) c"

definition hex_number :: "string \<Rightarrow> nat" where
  "hex_number h = foldl (\<lambda>n x. 16 * n + (case hex_value x of None \<Rightarrow> 0 | Some d \<Rightarrow> d)) 0 h"

definition punct :: "char \<Rightarrow> token option" where
  "punct c =
     map_of [(CHR ''['', TLBrack), (CHR '']'', TRBrack), (CHR ''{'', TLBrace),
             (CHR ''}'', TRBrace), (CHR '','', TComma), (CHR '':'', TColon)] c"

definition escape :: "char \<Rightarrow> char option" where
  "escape c =
     map_of [(dquote, dquote), (CHR 0x5C, CHR 0x5C), (CHR ''/'', CHR ''/''),
             (CHR ''b'', CHR 0x08), (CHR ''f'', CHR 0x0C), (CHR ''n'', CHR 0x0A),
             (CHR ''r'', CHR 0x0D), (CHR ''t'', CHR 0x09)] c"

text \<open>One character outside a string or a word; the tokens are collected in reverse.\<close>

definition lex_idle :: "token list \<Rightarrow> char \<Rightarrow> (lex_mode \<times> token list) option" where
  "lex_idle acc c =
     (if is_space c then Some (Idle, acc)
      else if c = dquote then Some (InStr [], acc)
      else if is_word_char c then Some (InWord [c], acc)
      else (case punct c of Some tok \<Rightarrow> Some (Idle, tok # acc) | None \<Rightarrow> None))"

fun lex_step :: "lex_mode \<times> token list \<Rightarrow> char \<Rightarrow> (lex_mode \<times> token list) option" where
  "lex_step (Idle, acc) c = lex_idle acc c"
| "lex_step (InWord w, acc) c =
     (if is_word_char c then Some (InWord (c # w), acc)
      else lex_idle (TWord (rev w) # acc) c)"
| "lex_step (InStr s, acc) c =
     (if c = dquote then Some (Idle, TStr (rev s) # acc)
      else if c = CHR 0x5C then Some (InEsc s, acc)
      else if of_char c < (32::nat) then None
      else Some (InStr (c # s), acc))"
| "lex_step (InEsc s, acc) c =
     (if c = CHR ''u'' then Some (InHex s [], acc)
      else (case escape c of Some e \<Rightarrow> Some (InStr (e # s), acc) | None \<Rightarrow> None))"
| "lex_step (InHex s h, acc) c =
     (case hex_value c of
        None \<Rightarrow> None
      | Some d \<Rightarrow>
          if length h < 3 then Some (InHex s (c # h), acc)
          else (let code = hex_number (rev (c # h))
                in if code < 256 then Some (InStr (char_of code # s), acc) else None))"

fun lex_all :: "lex_mode \<times> token list \<Rightarrow> string \<Rightarrow> token list option" where
  "lex_all (Idle, acc) [] = Some (rev acc)"
| "lex_all (InWord w, acc) [] = Some (rev (TWord (rev w) # acc))"
| "lex_all (_, acc) [] = None"
| "lex_all st (c # cs) = (case lex_step st c of None \<Rightarrow> None | Some st' \<Rightarrow> lex_all st' cs)"

text \<open>The number grammar: \<open>-? (0 | [1-9][0-9]*) (. [0-9]+)? ([eE] [+-]? [0-9]+)?\<close>.\<close>

definition valid_exp :: "string \<Rightarrow> bool" where
  "valid_exp s =
     (case s of
        [] \<Rightarrow> True
      | c # cs \<Rightarrow>
          (c = CHR ''e'' \<or> c = CHR ''E'') \<and>
          (let ds = (case cs of [] \<Rightarrow> [] | d # ds' \<Rightarrow> if d = CHR ''+'' \<or> d = CHR ''-'' then ds' else cs)
           in ds \<noteq> [] \<and> list_all is_digit ds))"

definition valid_frac :: "string \<Rightarrow> bool" where
  "valid_frac s =
     (case s of
        [] \<Rightarrow> True
      | c # cs \<Rightarrow>
          if c = CHR ''.'' then takeWhile is_digit cs \<noteq> [] \<and> valid_exp (dropWhile is_digit cs)
          else valid_exp s)"

definition valid_number :: "string \<Rightarrow> bool" where
  "valid_number s =
     (let u = (case s of [] \<Rightarrow> [] | c # cs \<Rightarrow> if c = CHR ''-'' then cs else s)
      in case u of
           [] \<Rightarrow> False
         | d # ds \<Rightarrow>
             if d = CHR ''0'' then valid_frac ds
             else is_digit d \<and> valid_frac (dropWhile is_digit ds))"

definition word_value :: "string \<Rightarrow> json option" where
  "word_value w =
     (if w = ''true'' then Some (JBool True)
      else if w = ''false'' then Some (JBool False)
      else if w = ''null'' then Some JNull
      else if valid_number w then Some (JNum w)
      else None)"

text \<open>
  The tokens are read with a stack of the arrays and objects that are still open; a frame
  records what may come next.
\<close>

datatype frame =
    ArrStart
  | ArrVal "json list"
  | ArrComma "json list"
  | ObjStart
  | ObjKey "(string \<times> json) list" string
  | ObjColon "(string \<times> json) list" string
  | ObjVal "(string \<times> json) list"
  | ObjComma "(string \<times> json) list"

type_synonym pstate = "frame list \<times> json option"

fun put_value :: "json \<Rightarrow> pstate \<Rightarrow> pstate option" where
  "put_value v ([], None) = Some ([], Some v)"
| "put_value v (ArrStart # st, r) = Some (ArrVal [v] # st, r)"
| "put_value v (ArrComma vs # st, r) = Some (ArrVal (v # vs) # st, r)"
| "put_value v (ObjColon ms k # st, r) = Some (ObjVal ((k, v) # ms) # st, r)"
| "put_value v _ = None"

fun expects_value :: "pstate \<Rightarrow> bool" where
  "expects_value ([], None) = True"
| "expects_value (ArrStart # st, r) = True"
| "expects_value (ArrComma vs # st, r) = True"
| "expects_value (ObjColon ms k # st, r) = True"
| "expects_value _ = False"

fun parse_step :: "pstate \<Rightarrow> token \<Rightarrow> pstate option" where
  "parse_step (st, r) TLBrack = (if expects_value (st, r) then Some (ArrStart # st, r) else None)"
| "parse_step (st, r) TLBrace = (if expects_value (st, r) then Some (ObjStart # st, r) else None)"
| "parse_step (ArrStart # st, r) TRBrack = put_value (JArr []) (st, r)"
| "parse_step (ArrVal vs # st, r) TRBrack = put_value (JArr (rev vs)) (st, r)"
| "parse_step (ObjStart # st, r) TRBrace = put_value (JObj []) (st, r)"
| "parse_step (ObjVal ms # st, r) TRBrace = put_value (JObj (rev ms)) (st, r)"
| "parse_step (ArrVal vs # st, r) TComma = Some (ArrComma vs # st, r)"
| "parse_step (ObjVal ms # st, r) TComma = Some (ObjComma ms # st, r)"
| "parse_step (ObjKey ms k # st, r) TColon = Some (ObjColon ms k # st, r)"
| "parse_step (ObjStart # st, r) (TStr s) = Some (ObjKey [] s # st, r)"
| "parse_step (ObjComma ms # st, r) (TStr s) = Some (ObjKey ms s # st, r)"
| "parse_step (st, r) (TStr s) = put_value (JStr s) (st, r)"
| "parse_step (st, r) (TWord w) =
     (case word_value w of None \<Rightarrow> None | Some v \<Rightarrow> put_value v (st, r))"
| "parse_step _ _ = None"

fun parse_tokens :: "pstate \<Rightarrow> token list \<Rightarrow> json option" where
  "parse_tokens ([], Some v) [] = Some v"
| "parse_tokens _ [] = None"
| "parse_tokens ps (tok # toks) =
     (case parse_step ps tok of None \<Rightarrow> None | Some ps' \<Rightarrow> parse_tokens ps' toks)"

definition JSON_parse :: "string \<Rightarrow> error + json" where
  "JSON_parse text =
     (case lex_all (Idle, []) text of
        None \<Rightarrow> Inl (SyntaxError ''Unexpected token in JSON'')
      | Some toks \<Rightarrow>
          (case parse_tokens ([], None) toks of
             None \<Rightarrow> Inl (SyntaxError ''Unexpected token in JSON'')
           | Some v \<Rightarrow> Inr v))"


section \<open>Extracting the Solana address of a row (\<open>unnamed/part_003\<close>, lines 44 to 76)\<close>

text \<open>
  Reading one of the properties \<open>type\<close>, \<open>chain_type\<close>, \<open>address\<close> of a parsed value.  On
  \<open>null\<close> the read throws; an object gives the value of the key (the last one, where a key
  is repeated) or \<open>undefined\<close>; strings, numbers, booleans and arrays have no property of
  these names.
\<close>

fun get_prop :: "json \<Rightarrow> string \<Rightarrow> error + json option" where
  "get_prop JNull k = Inl (TypeError ''Cannot read properties of null'')"
| "get_prop (JObj ms) k = Inr (map_of (rev ms) k)"
| "get_prop _ k = Inr None"

text \<open>\<open>account.type === 'wallet' && account.chain_type === 'solana'\<close>\<close>

definition is_solana_wallet :: "json \<Rightarrow> error + bool" where
  "is_solana_wallet account =
     (case get_prop account ''type'' of
        Inl e \<Rightarrow> Inl e
      | Inr t \<Rightarrow>
          if t = Some (JStr ''wallet'')
          then (case get_prop account ''chain_type'' of
                  Inl e \<Rightarrow> Inl e
                | Inr c \<Rightarrow> Inr (c = Some (JStr ''solana'')))
          else Inr False)"

text \<open>\<open>Array.prototype.find\<close> with this callback: the first element it accepts.\<close>

fun find_account :: "json list \<Rightarrow> error + json option" where
  "find_account [] = Inr None"
| "find_account (account # rest) =
     (case is_solana_wallet account of
        Inl e \<Rightarrow> Inl e
      | Inr True \<Rightarrow> Inr (Some account)
      | Inr False \<Rightarrow> find_account rest)"

text \<open>\<open>accounts.find(...)\<close> on whatever the parser returned: only an array has \<open>find\<close>.\<close>

fun accounts_find :: "json \<Rightarrow> error + json option" where
  "accounts_find (JArr accounts) = find_account accounts"
| "accounts_find _ = Inl (TypeError ''accounts.find is not a function'')"

text \<open>\<open>solanaAccount?.address\<close>\<close>

fun optional_address :: "json option \<Rightarrow> error + json option" where
  "optional_address None = Inr None"
| "optional_address (Some JNull) = Inr None"
| "optional_address (Some account) = get_prop account ''address''"

type_synonym parser = "string \<Rightarrow> error + json"

text \<open>The body of the \<open>try\<close>; \<open>linkedAccounts\<close> is \<open>undefined\<close> when the row has no such column.\<close>

definition extract_try :: "parser \<Rightarrow> string option \<Rightarrow> error + json option" where
  "extract_try parse linkedAccounts =
     (case linkedAccounts of
        None \<Rightarrow> Inl (TypeError ''Cannot read properties of undefined (reading 'replace')'')
      | Some text \<Rightarrow>
          (case parse (normalizedJson text) of
             Inl e \<Rightarrow> Inl e
           | Inr accounts \<Rightarrow>
               (case accounts_find accounts of
                  Inl e \<Rightarrow> Inl e
                | Inr solanaAccount \<Rightarrow> optional_address solanaAccount)))"

definition extractSolanaAddress :: "parser \<Rightarrow> string option \<Rightarrow> json option io" where
  "extractSolanaAddress parse linkedAccounts =
     io_catch (io_lift (extract_try parse linkedAccounts))
       (\<lambda>error. io_then (emit (Log ''Error parsing linked accounts:'')) (
                 io_then (emit (Log ''Problematic JSON:'')) (
                 io_return None)))"

record user =
  user_id :: "string option"
  solanaAddress :: "json option"

type_synonym csv_record = "string \<rightharpoonup> string"

record csv_world = setup_world +
  readFileSync_csv :: "error option"
  csv_parse :: "error + csv_record list"

text \<open>\<open>records.map((record) => ({ id: record.id, solanaAddress: ... }))\<close>, row by row.\<close>

fun map_records :: "parser \<Rightarrow> csv_record list \<Rightarrow> user list io" where
  "map_records parse [] = io_return []"
| "map_records parse (record # rest) =
     io_bind (extractSolanaAddress parse (record ''linked_accounts'')) (\<lambda>address.
     io_bind (map_records parse rest) (\<lambda>users.
     io_return (\<lparr> user_id = record ''id'', solanaAddress = address \<rparr> # users)))"

definition readUsersFromCSV :: "parser \<Rightarrow> ('w csv_world_scheme) \<Rightarrow> user list io" where
  "readUsersFromCSV parse w =
     io_bind (call ''fs.readFileSync'' [] (attempt (readFileSync_csv w))) (\<lambda>_.
     io_bind (call ''csv.parse'' [] (csv_parse w)) (\<lambda>records.
     io_bind (map_records parse records) (\<lambda>users.
     io_return (filter (\<lambda>user. solanaAddress user \<noteq> None) users))))"

section \<open>Minting for every user (\<open>unnamed/part_003\<close>, lines 78 to 258)\<close>

record collection_world = csv_world +
  collection_uploadMetadata :: "error + string"
  collection_create :: "nat \<Rightarrow> error + nft"
  collection_confirm :: "nat \<Rightarrow> error + json option"
  user_uploadMetadata :: "nat \<Rightarrow> error + string"
  user_create :: "nat \<Rightarrow> error + nft"
  user_confirm :: "nat \<Rightarrow> error + json option"
  zero_number :: "string \<Rightarrow> bool"

text \<open>
  The truth test of \<open>!user.solanaAddress\<close> and of \<open>if (confirmation.value.err)\<close>:
  \<open>undefined\<close>, \<open>null\<close>, \<open>false\<close>, the empty string and the number zero are falsy.
  Whether a number lexeme denotes zero is floating-point arithmetic; it is read from the
  world.
\<close>

fun falsy :: "('w collection_world_scheme) \<Rightarrow> json option \<Rightarrow> bool" where
  "falsy w None = True"
| "falsy w (Some JNull) = True"
| "falsy w (Some (JBool b)) = (\<not> b)"
| "falsy w (Some (JNum n)) = zero_number w n"
| "falsy w (Some (JStr s)) = (s = [])"
| "falsy w (Some _) = False"

definition user_args :: "user \<Rightarrow> json option list" where
  "user_args u = [map_option JStr (user_id u), solanaAddress u]"

text \<open>
  \<open>mintNFTForUser\<close> for the user at position \<open>k\<close>.  The guard on the address stands
  before the \<open>try\<close>; the \<open>catch\<close> logs and throws again.
\<close>

definition mintNFTForUser :: "('w collection_world_scheme) \<Rightarrow> nat \<Rightarrow> user \<Rightarrow> unit io" where
  "mintNFTForUser w k u =
     (if falsy w (solanaAddress u) then io_throw (Error ''No Solana address found for user'')
      else
        io_catch
          (io_bind (call ''nfts.uploadMetadata'' (user_args u) (user_uploadMetadata w k)) (\<lambda>nftMetadataUri.
           io_then (emit (Log ''NFT metadata uploaded for user'')) (
           io_bind (call ''nfts.create'' (user_args u) (user_create w k)) (\<lambda>result.
           io_then (emit (Log ''NFT transaction signature for user'')) (
           io_bind (call ''confirmTransaction'' (user_args u) (user_confirm w k)) (\<lambda>err.
           if falsy w err then emit (Log ''NFT minted successfully for user'')
           else io_throw (Error ''NFT transaction failed for user'')))))))
          (\<lambda>error. io_then (emit (Log ''Error minting NFT for user'')) (io_throw error)))"

text \<open>Lines 247 to 252: \<open>for (const user of users) { log; await mintNFTForUser(...); await sleep(2000) }\<close>\<close>

fun mint_users :: "('w collection_world_scheme) \<Rightarrow> nat \<Rightarrow> user list \<Rightarrow> unit io" where
  "mint_users w k [] = io_return ()"
| "mint_users w k (u # us) =
     io_then (emit (Log ''Minting NFT for user'')) (
     io_bind (mintNFTForUser w k u) (\<lambda>_.
     io_then (emit (Sleep 2000)) (
     mint_users w (k + 1) us)))"

text \<open>Lines 202 to 240: the collection NFT, minted and confirmed inside the retry loop.\<close>

definition collection_attempt :: "('w collection_world_scheme) \<Rightarrow> nat \<Rightarrow> nft io" where
  "collection_attempt w k =
     io_bind (call ''nfts.create'' [] (collection_create w k)) (\<lambda>result.
     io_then (emit (Log ''Collection transaction signature:'')) (
     io_bind (call ''confirmTransaction'' [] (collection_confirm w k)) (\<lambda>err.
     if falsy w err
     then io_then (emit (Log ''Collection NFT minted successfully:'')) (io_return result)
     else io_throw (Error ''Collection transaction failed''))))"

definition mint_collection :: "('w collection_world_scheme) \<Rightarrow> nft io" where
  "mint_collection w =
     io_bind (retry_loop (collection_attempt w) ''Collection minting failed, retrying...'' maxRetries 0)
       (\<lambda>collectionNft.
          case collectionNft of
            None \<Rightarrow> io_throw (Error ''Failed to mint collection NFT'')
          | Some n \<Rightarrow> io_return n)"

definition collection_main ::
  "parser \<Rightarrow> ('w collection_world_scheme) \<Rightarrow> (string \<rightharpoonup> string) \<Rightarrow> string option \<Rightarrow> unit io" where
  "collection_main parse w env arg =
     io_bind (start_up w env arg) (\<lambda>config.
     io_catch
       (io_then (emit (Log ''Using image from Arweave:'')) (
        io_bind (call ''nfts.uploadMetadata'' [] (collection_uploadMetadata w)) (\<lambda>collectionMetadataUri.
        io_then (emit (Log ''Collection metadata uploaded:'')) (
        io_bind (mint_collection w) (\<lambda>collectionNft.
        io_bind (readUsersFromCSV parse w) (\<lambda>users.
        io_then (emit (Log ''Found users with Solana addresses'')) (
        io_then (mint_users w 0 users) (
        emit (Log ''All NFTs minted successfully!'')))))))))
       (\<lambda>error. emit (Log ''Error minting NFTs:'')))"


section \<open>The compressed-NFT script (\<open>unnamed/part_004\<close>, lines 55 to 225)\<close>

record compressed_world = csv_world +
  createUmi :: "error option"
  getSlot :: "error option"
  getBlockTime :: "error + bool"
  keypairIdentity :: "error option"
  getBalance :: "error + nat"
  createTree :: "error option"
  tree_sendAndConfirm :: "error option"
  uploadJson :: "error + string"
  publicKey :: "nat \<Rightarrow> error option"
  mintV1 :: "nat \<Rightarrow> error option"
  sendAndConfirm :: "nat \<Rightarrow> error option"

text \<open>
  Lines 158 to 179, one row: the body of the \<open>try\<close> gives the address to push, if any.
  \<open>if (solanaWallet)\<close> holds for every element \<open>find\<close> returns, since the callback accepts
  objects only; \<open>solanaWallet.address\<close> may still be \<open>undefined\<close>.
\<close>

definition wallet_try :: "parser \<Rightarrow> string option \<Rightarrow> error + json option option" where
  "wallet_try parse linked_accounts =
     (case linked_accounts of
        None \<Rightarrow> Inl (TypeError ''Cannot read properties of undefined (reading 'replace')'')
      | Some text \<Rightarrow>
          (case parse (jsonStr text) of
             Inl e \<Rightarrow> Inl e
           | Inr linkedAccounts \<Rightarrow>
               (case accounts_find linkedAccounts of
                  Inl e \<Rightarrow> Inl e
                | Inr None \<Rightarrow> Inr None
                | Inr (Some solanaWallet) \<Rightarrow>
                    (case get_prop solanaWallet ''address'' of
                       Inl e \<Rightarrow> Inl e
                     | Inr address \<Rightarrow> Inr (Some address)))))"

definition wallet_of_row :: "parser \<Rightarrow> csv_record \<Rightarrow> json option option io" where
  "wallet_of_row parse record =
     io_catch (io_lift (wallet_try parse (record ''linked_accounts'')))
       (\<lambda>error. io_then (emit (Log ''Error parsing linked_accounts:'')) (
                 io_then (emit (Log ''Problematic JSON string:'')) (
                 io_return None)))"

fun extract_rows :: "parser \<Rightarrow> json option list \<Rightarrow> csv_record list \<Rightarrow> json option list io" where
  "extract_rows parse solanaAddresses [] = io_return solanaAddresses"
| "extract_rows parse solanaAddresses (record # rest) =
     io_bind (wallet_of_row parse record) (\<lambda>pushed.
     extract_rows parse (case pushed of None \<Rightarrow> solanaAddresses
                                      | Some address \<Rightarrow> solanaAddresses @ [address]) rest)"

text \<open>Lines 189 to 206: the \<open>try\<close> block of one recipient.\<close>

definition mint_try :: "('w compressed_world_scheme) \<Rightarrow> nat \<Rightarrow> json option \<Rightarrow> unit io" where
  "mint_try w k address =
     io_bind (call ''publicKey'' [address] (attempt (publicKey w k))) (\<lambda>leafOwner.
     io_bind (call ''mintV1'' [address] (attempt (mintV1 w k))) (\<lambda>mintBuilder.
     io_bind (call ''sendAndConfirm'' [address] (attempt (sendAndConfirm w k))) (\<lambda>_.
     emit (Log ''Minted NFT for address:''))))"

text \<open>
  The \<open>catch\<close>: \<open>Error details:\<close> is printed \<open>if (error instanceof Error)\<close>, and
  \<open>Transaction logs:\<close> when that error carries \<open>transactionLogs\<close>.
\<close>

definition mint_failed :: "error \<Rightarrow> unit io" where
  "mint_failed error =
     io_then (emit (Log ''Failed to mint NFT for address:'')) (
     case error of
       Thrown m \<Rightarrow> io_return ()
     | Upstream m (Some transactionLogs) \<Rightarrow>
         io_then (emit (Log ''Error details:'')) (emit (Log ''Transaction logs:''))
     | _ \<Rightarrow> emit (Log ''Error details:''))"

fun mint_batch :: "('w compressed_world_scheme) \<Rightarrow> nat \<Rightarrow> json option list \<Rightarrow> unit io" where
  "mint_batch w k [] = io_return ()"
| "mint_batch w k (address # rest) =
     io_then (io_catch (mint_try w k address) mint_failed) (mint_batch w (k + 1) rest)"

text \<open>
  Lines 184 to 224: \<open>for (let i = 0; i < solanaAddresses.length; i += batchSize)\<close>, with
  \<open>batch = solanaAddresses.slice(i, i + batchSize)\<close>.
\<close>

definition batchSize :: nat where
  "batchSize = 5"

definition slice :: "'a list \<Rightarrow> nat \<Rightarrow> nat \<Rightarrow> 'a list" where
  "slice xs i j = take (j - i) (drop i xs)"

function batch_loop :: "('w compressed_world_scheme) \<Rightarrow> json option list \<Rightarrow> nat \<Rightarrow> unit io" where
  "batch_loop w solanaAddresses i =
     (if i < length solanaAddresses then
        io_then (emit (Log ''Minting batch'')) (
        io_then (mint_batch w i (slice solanaAddresses i (i + batchSize))) (
        io_then (if i + batchSize < length solanaAddresses
                 then io_then (emit (Log ''Waiting 2 seconds before next batch...''))
                              (emit (Sleep 2000))
                 else io_return ()) (
        batch_loop w solanaAddresses (i + batchSize))))
      else io_return ())"
  by pat_completeness auto
termination
  by (relation "measure (\<lambda>(w, solanaAddresses, i). length solanaAddresses - i)")
     (auto simp: batchSize_def)

declare batch_loop.simps [simp del]



text \<open>Lines 66 to 78 and 91 to 107: the two checks that end \<open>main\<close> early.\<close>

definition rpc_check :: "('w compressed_world_scheme) \<Rightarrow> bool io" where
  "rpc_check w =
     io_catch
       (io_bind (call ''rpc.getSlot'' [] (attempt (getSlot w))) (\<lambda>slot.
        io_then (emit (Log ''Current slot:'')) (
        io_bind (call ''rpc.getBlockTime'' [] (getBlockTime w)) (\<lambda>blockTime.
        io_then (if blockTime then emit (Log ''Block time:'') else io_return ()) (
        io_return True)))))
       (\<lambda>error. io_then (emit (Log ''Failed to connect to RPC:'')) (io_return False))"

definition balance_check :: "('w compressed_world_scheme) \<Rightarrow> bool io" where
  "balance_check w =
     io_catch
       (io_bind (call ''new Connection'' []
                   (attempt (new_Connection w (Some ''https://api.devnet.solana.com'')))) (\<lambda>connection.
        io_bind (call ''getBalance'' [] (getBalance w)) (\<lambda>balance.
        io_then (emit (Log ''Raw balance:'')) (
        io_then (emit (Log ''Wallet balance:'')) (
        if balance < 1000000000
        then io_then (emit (Log ''Insufficient balance.'')) (
             io_then (emit (Log ''solana airdrop 2'')) (
             io_return False))
        else io_return True)))))
       (\<lambda>error. io_then (emit (Log ''Failed to get balance:'')) (io_return False))"

definition mint_all :: "parser \<Rightarrow> ('w compressed_world_scheme) \<Rightarrow> unit io" where
  "mint_all parse w =
     io_then (emit (Log ''Creating Merkle tree...'')) (
     io_bind (call ''createTree'' [] (attempt (createTree w))) (\<lambda>builder.
     io_bind (call ''sendAndConfirm'' [] (attempt (tree_sendAndConfirm w))) (\<lambda>_.
     io_then (emit (Log ''Merkle tree created:'')) (
     io_bind (call ''uploader.uploadJson'' [] (uploadJson w)) (\<lambda>metadataUri.
     io_then (emit (Log ''Metadata uploaded:'')) (
     io_then (emit (Log ''Reading CSV file from:'')) (
     io_bind (call ''fs.readFileSync'' [] (attempt (readFileSync_csv w))) (\<lambda>fileContent.
     io_bind (call ''csv.parse'' [] (csv_parse w)) (\<lambda>records.
     io_bind (extract_rows parse [] records) (\<lambda>solanaAddresses.
     io_then (emit (Log ''Found Solana addresses:'')) (
     batch_loop w solanaAddresses 0)))))))))))"

definition compressed_main ::
  "parser \<Rightarrow> ('w compressed_world_scheme) \<Rightarrow> (string \<rightharpoonup> string) \<Rightarrow> unit io" where
  "compressed_main parse w env =
     io_bind (io_lift (wallet_key env)) (\<lambda>privateKey.
     io_bind (call ''createUmi'' [] (attempt (createUmi w))) (\<lambda>umi.
     io_bind (rpc_check w) (\<lambda>connected.
     if \<not> connected then io_return ()
     else
       io_bind (call ''bs58.decode'' [] (attempt (bs58_decode w privateKey))) (\<lambda>secretKey.
       io_bind (call ''Keypair.fromSecretKey'' [] (attempt (Keypair_fromSecretKey w))) (\<lambda>keypair.
       io_bind (call ''keypairIdentity'' [] (attempt (keypairIdentity w))) (\<lambda>_.
       io_then (emit (Log ''Wallet address:'')) (
       io_bind (balance_check w) (\<lambda>funded.
       if \<not> funded then io_return () else mint_all parse w))))))))"


section \<open>Notions used to state the properties\<close>

text \<open>The error the \<open>try\<close> block of recipient \<open>k\<close> throws, if any of its three calls does.\<close>

definition mint_outcome :: "('w compressed_world_scheme) \<Rightarrow> nat \<Rightarrow> error option" where
  "mint_outcome w k =
     (case publicKey w k of
        Some e \<Rightarrow> Some e
      | None \<Rightarrow> (case mintV1 w k of Some e \<Rightarrow> Some e | None \<Rightarrow> sendAndConfirm w k))"

text \<open>The delays of a trace together with the starts of the recipients' mints.\<close>

fun schedule :: "event list \<Rightarrow> event list" where
  "schedule [] = []"
| "schedule (Sleep ms # t) = Sleep ms # schedule t"
| "schedule (Call nm args # t) =
     (if nm = ''publicKey'' then Call nm args # schedule t else schedule t)"
| "schedule (_ # t) = schedule t"


text \<open>An entry with \<open>type == "wallet"\<close> and \<open>chain_type == "solana"\<close>.\<close>

fun wallet_entry :: "json \<Rightarrow> bool" where
  "wallet_entry (JObj ms) =
     (map_of (rev ms) ''type'' = Some (JStr ''wallet'')
      \<and> map_of (rev ms) ''chain_type'' = Some (JStr ''solana''))"
| "wallet_entry _ = False"

text \<open>A parsed value that is an array with such an entry.\<close>

fun has_wallet_entry :: "json \<Rightarrow> bool" where
  "has_wallet_entry (JArr accounts) = list_ex wallet_entry accounts"
| "has_wallet_entry _ = False"

text \<open>The record \<open>readUsersFromCSV\<close> builds for a row, before it filters.\<close>

definition user_of_row :: "parser \<Rightarrow> csv_record \<Rightarrow> user" where
  "user_of_row parse record =
     \<lparr> user_id = record ''id'',
       solanaAddress = (case extract_try parse (record ''linked_accounts'') of
                          Inl e \<Rightarrow> None
                        | Inr address \<Rightarrow> address) \<rparr>"

definition users_of :: "parser \<Rightarrow> csv_record list \<Rightarrow> user list" where
  "users_of parse records =
     filter (\<lambda>user. solanaAddress user \<noteq> None) (map (user_of_row parse) records)"

text \<open>The addresses the compressed script collects from rows, before it mints.\<close>

definition pushed_of_row :: "parser \<Rightarrow> csv_record \<Rightarrow> json option list" where
  "pushed_of_row parse record =
     (case wallet_try parse (record ''linked_accounts'') of
        Inr (Some address) \<Rightarrow> [address]
      | _ \<Rightarrow> [])"

text \<open>
  No end of \<open>q\<close> is a beginning of \<open>rep\<close> or begins with \<open>rep\<close>: an occurrence of \<open>q\<close>
  cannot run into an inserted \<open>rep\<close>.
\<close>

definition apart :: "string \<Rightarrow> string \<Rightarrow> bool" where
  "apart q rep = list_all (\<lambda>b. b = [] \<or> (\<not> prefix b rep \<and> \<not> prefix rep b)) (suffixes q)"

section \<open>Worlds and rows used to evaluate the scripts\<close>

text \<open>A start-up in which every collaborator returns.\<close>

definition quiet_setup :: setup_world where
  "quiet_setup =
     \<lparr> new_Connection = (\<lambda>url. None), bs58_decode = (\<lambda>key. None), Keypair_fromSecretKey = None \<rparr>"

text \<open>The single-mint script, with an upload that answers as \<open>up\<close> and a mint that answers as \<open>mi\<close>.\<close>

definition index_with :: "(nat \<Rightarrow> error + string) \<Rightarrow> (nat \<Rightarrow> error + nft) \<Rightarrow> index_world" where
  "index_with up mi =
     \<lparr> new_Connection = (\<lambda>url. None), bs58_decode = (\<lambda>key. None), Keypair_fromSecretKey = None,
       readFileSync_image = None, storage_upload = up,
       uploadMetadata = Inr ''https://arweave.net/metadata'', nfts_create = mi \<rparr>"

definition timeout :: error where
  "timeout = Upstream ''timeout'' None"

text \<open>An upload that times out twice and then answers \<open>uri\<close>.\<close>

definition third_time :: "'a \<Rightarrow> nat \<Rightarrow> error + 'a" where
  "third_time v k = (if k < 2 then Inl timeout else Inr v)"

definition both_keys :: "string \<rightharpoonup> string" where
  "both_keys = [''SOLANA_RPC_URL'' \<mapsto> ''https://rpc.example.org'', ''WALLET_PRIVATE_KEY'' \<mapsto> ''3xKey'']"

text \<open>
  The collection script on the rows \<open>rows\<close>: every collaborator returns, but for the
  metadata upload of a user, which answers as \<open>up\<close>.
\<close>

definition collection_with :: "csv_record list \<Rightarrow> (nat \<Rightarrow> error + string) \<Rightarrow> collection_world" where
  "collection_with rows up =
     \<lparr> new_Connection = (\<lambda>url. None), bs58_decode = (\<lambda>key. None), Keypair_fromSecretKey = None,
       readFileSync_csv = None, csv_parse = Inr rows,
       collection_uploadMetadata = Inr ''https://arweave.net/collection'',
       collection_create = (\<lambda>k. Inr (Nft ''collection'')),
       collection_confirm = (\<lambda>k. Inr None),
       user_uploadMetadata = up,
       user_create = (\<lambda>k. Inr (Nft ''item'')),
       user_confirm = (\<lambda>k. Inr None),
       zero_number = (\<lambda>n. False) \<rparr>"

text \<open>The compressed script on the rows \<open>rows\<close>, with a \<open>mintV1\<close> that answers as \<open>mi\<close>.\<close>

definition compressed_with :: "csv_record list \<Rightarrow> (nat \<Rightarrow> error option) \<Rightarrow> compressed_world" where
  "compressed_with rows mi =
     \<lparr> new_Connection = (\<lambda>url. None), bs58_decode = (\<lambda>key. None), Keypair_fromSecretKey = None,
       readFileSync_csv = None, csv_parse = Inr rows,
       createUmi = None, getSlot = None, getBlockTime = Inr True, keypairIdentity = None,
       getBalance = Inr 2000000000, createTree = None, tree_sendAndConfirm = None,
       uploadJson = Inr ''https://arweave.net/compressed'',
       publicKey = (\<lambda>k. None), mintV1 = mi, sendAndConfirm = (\<lambda>k. None) \<rparr>"

text \<open>A CSV row with the two columns of \<open>users.sample.csv\<close>.\<close>

definition row :: "string \<Rightarrow> string \<Rightarrow> csv_record" where
  "row i accounts = [''id'' \<mapsto> i, ''linked_accounts'' \<mapsto> accounts]"





text \<open>An upload of metadata that times out for the first user only.\<close>

definition first_fails :: "nat \<Rightarrow> error + string" where
  "first_fails k = (if k = 0 then Inl timeout else Inr ''https://arweave.net/item'')"

text \<open>Texts of the column \<open>linked_accounts\<close>, in the format of the export.\<close>

definition sample_accounts :: string where
  "sample_accounts =
     ''[{'type': 'wallet', 'chain_type': 'solana', 'address': 'AbC123'}, {'type': 'email'}]''"

definition no_address_accounts :: string where
  "no_address_accounts = ''[{'type': 'wallet', 'chain_type': 'solana'}]''"

definition null_first_accounts :: string where
  "null_first_accounts =
     ''[None, {'type': 'wallet', 'chain_type': 'solana', 'address': 'AbC123'}]''"

definition empty_address_accounts :: string where
  "empty_address_accounts =
     ''[{'type': 'wallet', 'chain_type': 'solana', 'address': '' @ [squote, squote] @ ''}]''"

definition email_accounts :: string where
  "email_accounts = ''[{'type': 'email', 'address': 'a@example.org'}]''"

definition broken_accounts :: string where
  "broken_accounts = ''[{'type': 'wallet', 'chain_type': 'solana', 'address': 'AbC123'}''"

definition none_address_accounts :: string where
  "none_address_accounts =
     ''[{'type': 'wallet', 'chain_type': 'solana', 'address': 'So1NoneXyz'}]''"

definition apostrophe_accounts :: string where
  "apostrophe_accounts =
     ''[{'type': 'wallet', 'chain_type': 'solana', 'address': 'Ab'C123'}]''"

section \<open>Properties of the effect layer and of the start-up\<close>

lemma io_bind_Inl: "io_bind (Inl e, t) f = (Inl e, t)"
  by (simp add: io_bind_def)

lemma io_bind_Inr: "io_bind (Inr x, t) f = io_after t (f x)"
  by (simp add: io_bind_def)

lemma io_bind_pair:
  "io_bind (r, t) f = (case r of Inl e \<Rightarrow> (Inl e, t) | Inr x \<Rightarrow> io_after t (f x))"
  by (simp add: io_bind_def split: sum.split)

lemma io_after_pair: "io_after t (r, t') = (r, t @ t')"
  by (simp add: io_after_def)

lemma io_after_Nil: "io_after [] m = m"
  by (simp add: io_after_def)

lemma io_catch_Inl: "io_catch (Inl e, t) h = io_after t (h e)"
  by (simp add: io_catch_def)

lemma io_catch_Inr: "io_catch (Inr x, t) h = (Inr x, t)"
  by (simp add: io_catch_def)

lemmas io_simps =
  io_bind_Inl io_bind_Inr io_after_pair io_after_Nil io_catch_Inl io_catch_Inr
  io_return_def io_throw_def io_lift_def emit_def call_def io_then_def

lemma start_up_no_key:
  assumes "env ''WALLET_PRIVATE_KEY'' = None"
  shows "start_up w env arg =
     (case rpc_endpoint env (NETWORK_CONFIGS (select_network arg)) of
        Inl e \<Rightarrow> (Inl e, [])
      | Inr url \<Rightarrow>
          (case new_Connection w url of
             Some e \<Rightarrow> (Inl e, [Call ''new Connection'' []])
           | None \<Rightarrow> (Inl (Error ''WALLET_PRIVATE_KEY is not set in .env file''),
                      [Call ''new Connection'' []])))"
  using assms
  by (simp add: start_up_def Let_def wallet_key_def env_truthy_def attempt_def io_simps
           split: sum.split option.split)

lemma start_up_Undefined:
  assumes "NETWORK_CONFIGS (select_network arg) = Undefined"
  shows "\<exists>e t. start_up w env arg = (Inl e, t) \<and> logged t = []"
  using assms
  by (simp add: start_up_def Let_def attempt_def io_bind_pair io_simps
           split: sum.split option.split)

lemma start_up_Undefined_no_url:
  assumes "NETWORK_CONFIGS (select_network arg) = Undefined" and "env ''SOLANA_RPC_URL'' = None"
  shows "start_up w env arg =
           (Inl (TypeError ''Cannot read properties of undefined (reading 'rpcUrl')''), [])"
  using assms
  by (simp add: start_up_def Let_def rpc_endpoint_def env_truthy_def io_simps)

lemma unknown_token:
  assumes "tok \<notin> set ([''mainnet'', ''devnet'', []] @ Object_prototype)"
  shows "NETWORK_CONFIGS (select_network (Some tok)) = Undefined"
  using assms by (simp add: NETWORK_CONFIGS_def select_network_def)

lemma inherited_token:
  assumes "tok \<in> set Object_prototype"
  shows "NETWORK_CONFIGS (select_network (Some tok)) = Inherited tok"
  using assms by (auto simp: NETWORK_CONFIGS_def select_network_def Object_prototype_def)

text \<open>
  Claim C6, as the code has it.  The token \<open>mainnet\<close> selects the mainnet configuration,
  with its RPC URL and the display name \<open>Mainnet Beta\<close>; an omitted token, and the empty
  one, select the devnet configuration.  The token itself is never checked.  A token that
  is neither of the two names, nor empty, nor a member every object inherits selects
  \<open>undefined\<close>: the start-up then stops with an error before anything is logged, a
  TypeError on \<open>rpcUrl\<close> when \<open>SOLANA_RPC_URL\<close> is not set.  A token that names an
  inherited member selects that member, which is not a configuration.
\<close>

theorem network_selector:
  fixes w :: "'w setup_world_scheme"
  shows "NETWORK_CONFIGS (select_network (Some ''mainnet'')) = Own mainnet
       \<and> rpcUrl mainnet = ''https://api.mainnet-beta.solana.com''
       \<and> name mainnet = ''Mainnet Beta''
       \<and> NETWORK_CONFIGS (select_network None) = Own devnet
       \<and> NETWORK_CONFIGS (select_network (Some [])) = Own devnet
       \<and> (tok \<notin> set ([''mainnet'', ''devnet'', []] @ Object_prototype) \<longrightarrow>
            NETWORK_CONFIGS (select_network (Some tok)) = Undefined
          \<and> (\<exists>e t. start_up w env (Some tok) = (Inl e, t) \<and> logged t = [])
          \<and> (env ''SOLANA_RPC_URL'' = None \<longrightarrow>
               start_up w env (Some tok) =
                 (Inl (TypeError ''Cannot read properties of undefined (reading 'rpcUrl')''), [])))
       \<and> (tok \<in> set Object_prototype \<longrightarrow>
            NETWORK_CONFIGS (select_network (Some tok)) = Inherited tok)"
proof -
  have known: "NETWORK_CONFIGS (select_network (Some ''mainnet'')) = Own mainnet"
    "NETWORK_CONFIGS (select_network None) = Own devnet"
    "NETWORK_CONFIGS (select_network (Some [])) = Own devnet"
    by (simp_all add: NETWORK_CONFIGS_def select_network_def)
  have fields: "rpcUrl mainnet = ''https://api.mainnet-beta.solana.com''"
    "name mainnet = ''Mainnet Beta''"
    by (simp_all add: mainnet_def)
  show ?thesis
    using known fields unknown_token [of tok] inherited_token [of tok]
      start_up_Undefined [of "Some tok" w env] start_up_Undefined_no_url [of "Some tok" env w]
    by blast
qed

theorem network_selector_witness:
  "NETWORK_CONFIGS (select_network (Some ''testnet'')) = Undefined
 \<and> start_up quiet_setup Map.empty (Some ''testnet'') =
     (Inl (TypeError ''Cannot read properties of undefined (reading 'rpcUrl')''), [])
 \<and> NETWORK_CONFIGS (select_network (Some ''toString'')) = Inherited ''toString''"
  using network_selector [of "''testnet''" quiet_setup Map.empty]
        network_selector [of "''toString''" quiet_setup Map.empty]
  by (simp add: Object_prototype_def)

text \<open>
  With the token \<open>constructor\<close>, an RPC URL and a key in the environment, the start-up
  completes without any error; with the empty token the devnet configuration is selected.
\<close>

theorem network_selector_counterexample:
  "start_up quiet_setup both_keys (Some ''constructor'') =
     (Inr (Inherited ''constructor''),
      [Call ''new Connection'' [], Call ''bs58.decode'' [], Call ''Keypair.fromSecretKey'' [],
       Log ''NFT minting environment is ready.'', Log ''Wallet public key:'', Log ''Network:'',
       Log ''Bundlr storage needs about 0.1 SOL'', Log ''RPC URL:''])
 \<and> NETWORK_CONFIGS (select_network (Some '''')) = Own devnet"
  by (simp add: start_up_def Let_def select_network_def NETWORK_CONFIGS_def Object_prototype_def
        rpc_endpoint_def env_truthy_def wallet_key_def attempt_def quiet_setup_def both_keys_def
        io_simps)

section \<open>The missing key\<close>

lemma index_main_start_up_fails:
  assumes "start_up w env arg = (Inl e, t)"
  shows "index_main w env arg = (Inl e, t)"
  using assms by (simp add: index_main_def io_simps)

lemma collection_main_start_up_fails:
  assumes "start_up w env arg = (Inl e, t)"
  shows "collection_main parse w env arg = (Inl e, t)"
  using assms by (simp add: collection_main_def io_simps)

lemma start_up_no_key_trace:
  assumes "env ''WALLET_PRIVATE_KEY'' = None"
  shows "\<exists>e t. start_up w env arg = (Inl e, t) \<and> set t \<subseteq> {Call ''new Connection'' []}"
  using assms
  by (simp add: start_up_no_key split: sum.split option.split)

lemma start_up_no_key_error:
  assumes "env ''WALLET_PRIVATE_KEY'' = None"
    and "rpc_endpoint env (NETWORK_CONFIGS (select_network arg)) = Inr url"
    and "new_Connection w url = None"
  shows "start_up w env arg =
           (Inl (Error ''WALLET_PRIVATE_KEY is not set in .env file''), [Call ''new Connection'' []])"
  using assms by (simp add: start_up_no_key)

lemma compressed_main_no_key:
  assumes "env ''WALLET_PRIVATE_KEY'' = None"
  shows "compressed_main parse w env = (Inl (Error ''WALLET_PRIVATE_KEY is not set in .env file''), [])"
  using assms
  by (simp add: compressed_main_def wallet_key_def env_truthy_def io_simps)

text \<open>
  Claim C8.  When \<open>WALLET_PRIVATE_KEY\<close> is absent from the environment, each minting
  script ends with an error, and the only collaborator that may have been called before
  is the constructor of the connection: no file is read, nothing is uploaded and nothing
  is minted.  In the single-mint script the error is the one of the check itself as soon
  as the RPC endpoint is known and the connection is built; the compressed script checks
  the key first of all.
\<close>

theorem missing_key_fails_fast:
  fixes iw :: "'a index_world_scheme" and cw :: "'b collection_world_scheme"
    and zw :: "'c compressed_world_scheme"
  assumes "env ''WALLET_PRIVATE_KEY'' = None"
  shows "(\<exists>e t. index_main iw env arg = (Inl e, t) \<and> set t \<subseteq> {Call ''new Connection'' []})
       \<and> (\<exists>e t. collection_main parse cw env arg = (Inl e, t) \<and> set t \<subseteq> {Call ''new Connection'' []})
       \<and> compressed_main parse zw env =
           (Inl (Error ''WALLET_PRIVATE_KEY is not set in .env file''), [])
       \<and> (rpc_endpoint env (NETWORK_CONFIGS (select_network arg)) = Inr url
            \<and> new_Connection iw url = None \<longrightarrow>
          index_main iw env arg =
            (Inl (Error ''WALLET_PRIVATE_KEY is not set in .env file''), [Call ''new Connection'' []]))"
proof -
  have a: "\<exists>e t. index_main iw env arg = (Inl e, t) \<and> set t \<subseteq> {Call ''new Connection'' []}"
    using assms start_up_no_key_trace [of env iw arg] index_main_start_up_fails [of iw env arg]
    by blast
  have b: "\<exists>e t. collection_main parse cw env arg = (Inl e, t) \<and> set t \<subseteq> {Call ''new Connection'' []}"
    using assms start_up_no_key_trace [of env cw arg]
      collection_main_start_up_fails [of cw env arg _ _ parse]
    by blast
  have c: "compressed_main parse zw env =
             (Inl (Error ''WALLET_PRIVATE_KEY is not set in .env file''), [])"
    using assms by (rule compressed_main_no_key)
  have d: "rpc_endpoint env (NETWORK_CONFIGS (select_network arg)) = Inr url
            \<and> new_Connection iw url = None \<longrightarrow>
          index_main iw env arg =
            (Inl (Error ''WALLET_PRIVATE_KEY is not set in .env file''), [Call ''new Connection'' []])"
    using assms index_main_start_up_fails [of iw env arg] start_up_no_key_error [of env arg url iw]
    by blast
  show ?thesis using a b c d by blast
qed

theorem missing_key_fails_fast_witness:
  "index_main (index_with (\<lambda>k. Inr ''https://arweave.net/image'') (\<lambda>k. Inr (Nft ''mint''))) Map.empty None =
     (Inl (Error ''WALLET_PRIVATE_KEY is not set in .env file''), [Call ''new Connection'' []])
 \<and> compressed_main JSON_parse (compressed_with [] (\<lambda>k. None)) Map.empty =
     (Inl (Error ''WALLET_PRIVATE_KEY is not set in .env file''), [])"
  using missing_key_fails_fast [of Map.empty
          "index_with (\<lambda>k. Inr ''https://arweave.net/image'') (\<lambda>k. Inr (Nft ''mint''))" None
          JSON_parse "collection_with [] (\<lambda>k. Inr ''m'')" "compressed_with [] (\<lambda>k. None)"
          "Some ''https://api.devnet.solana.com''"]
  by (simp add: rpc_endpoint_def env_truthy_def select_network_def NETWORK_CONFIGS_def devnet_def
        index_with_def)

section \<open>The retry loop\<close>

lemma retry_loop_done:
  assumes "k < limit" and "fst (body k) = Inr v"
  shows "retry_loop body msg limit k = (Inr (Some v), snd (body k))"
proof -
  obtain t where "body k = (Inr v, t)" using assms(2) by (cases "body k") auto
  then show ?thesis using assms(1) by (subst retry_loop.simps) simp
qed

lemma retry_loop_last:
  assumes "k < limit" and "k + 1 = limit" and "fst (body k) = Inl e"
  shows "retry_loop body msg limit k = (Inl e, snd (body k))"
proof -
  obtain t where "body k = (Inl e, t)" using assms(3) by (cases "body k") auto
  then show ?thesis using assms(1,2) by (subst retry_loop.simps) simp
qed

lemma retry_loop_again:
  assumes "k + 1 < limit" and "fst (body k) = Inl e"
  shows "retry_loop body msg limit k =
           io_after (snd (body k) @ [Log msg, Sleep 5000]) (retry_loop body msg limit (k + 1))"
proof -
  obtain t where "body k = (Inl e, t)" using assms(2) by (cases "body k") auto
  then show ?thesis using assms(1) by (subst retry_loop.simps) simp
qed

text \<open>The trace of the failed attempts from \<open>i\<close> up to \<open>k\<close>, each followed by the log and the delay.\<close>

lemma retry_loop_success:
  assumes "k < limit" and "fst (body k) = Inr v"
    and "\<And>j. i \<le> j \<Longrightarrow> j < k \<Longrightarrow> \<exists>e. fst (body j) = Inl e"
    and "i \<le> k"
  shows "retry_loop body msg limit i =
           (Inr (Some v),
            concat (map (\<lambda>j. snd (body j) @ [Log msg, Sleep 5000]) [i..<k]) @ snd (body k))"
  using assms(3,4)
proof (induction "k - i" arbitrary: i)
  case 0
  then have "i = k" by simp
  then show ?case using retry_loop_done [of k limit body v msg] assms(1,2) by simp
next
  case (Suc n)
  then have lt: "i < k" by simp
  then obtain e where e: "fst (body i) = Inl e" using Suc.prems(1) [of i] by auto
  have step: "retry_loop body msg limit i =
      io_after (snd (body i) @ [Log msg, Sleep 5000]) (retry_loop body msg limit (i + 1))"
    using retry_loop_again [of i limit body e msg] lt assms(1) e by simp
  have ih: "retry_loop body msg limit (i + 1) =
      (Inr (Some v),
       concat (map (\<lambda>j. snd (body j) @ [Log msg, Sleep 5000]) [i + 1..<k]) @ snd (body k))"
    using Suc.hyps(1) [of "i + 1"] Suc.hyps(2) Suc.prems(1) lt by simp
  show ?case using step ih lt by (simp add: io_after_pair upt_conv_Cons)
qed

lemma retry_loop_exhausted:
  assumes "\<And>j. i \<le> j \<Longrightarrow> j < limit \<Longrightarrow> \<exists>e. fst (body j) = Inl e"
    and "i < limit" and "fst (body (limit - 1)) = Inl e"
  shows "retry_loop body msg limit i =
           (Inl e,
            concat (map (\<lambda>j. snd (body j) @ [Log msg, Sleep 5000]) [i..<limit - 1])
              @ snd (body (limit - 1)))"
  using assms(1,2)
proof (induction "limit - i" arbitrary: i)
  case 0
  then show ?case by simp
next
  case (Suc n)
  show ?case
  proof (cases "i + 1 = limit")
    case True
    then have "limit - 1 = i" by simp
    then show ?thesis using retry_loop_last [of i limit body e msg] True assms(3) by simp
  next
    case False
    then have lt: "i + 1 < limit" using Suc.prems(2) by simp
    obtain e' where e': "fst (body i) = Inl e'" using Suc.prems(1) [of i] Suc.prems(2) by auto
    have step: "retry_loop body msg limit i =
        io_after (snd (body i) @ [Log msg, Sleep 5000]) (retry_loop body msg limit (i + 1))"
      using retry_loop_again [of i limit body e' msg] lt e' by simp
    have ih: "retry_loop body msg limit (i + 1) =
        (Inl e,
         concat (map (\<lambda>j. snd (body j) @ [Log msg, Sleep 5000]) [i + 1..<limit - 1])
           @ snd (body (limit - 1)))"
      using Suc.hyps(1) [of "i + 1"] Suc.hyps(2) Suc.prems(1) lt by simp
    have "i < limit - 1" using lt by simp
    then show ?thesis using step ih by (simp add: io_after_pair upt_conv_Cons)
  qed
qed


lemma upload_attempt_eq:
  "upload_attempt w k =
     (case storage_upload w k of
        Inl e \<Rightarrow> (Inl e, [Call ''storage.upload'' []])
      | Inr uri \<Rightarrow> (Inr uri, [Call ''storage.upload'' [], Log ''Image uploaded:'']))"
  by (simp add: upload_attempt_def io_bind_pair io_simps split: sum.split)

lemma mint_attempt_eq: "mint_attempt w k = (nfts_create w k, [Call ''nfts.create'' []])"
  by (simp add: mint_attempt_def io_simps)

lemma retry_step:
  "retry_loop body msg limit k =
     (if k < limit then
        (case body k of
           (Inr v, t) \<Rightarrow> (Inr (Some v), t)
         | (Inl e, t) \<Rightarrow>
             if Suc k = limit then (Inl e, t)
             else io_after (t @ [Log msg, Sleep 5000]) (retry_loop body msg limit (Suc k)))
      else (Inr None, []))"
  by (subst retry_loop.simps) (simp split: prod.split sum.split)

lemma retry_three_Suc:
  "retry_loop body msg (Suc (Suc (Suc 0))) 0 =
     (case body 0 of
        (Inr v, t0) \<Rightarrow> (Inr (Some v), t0)
      | (Inl e0, t0) \<Rightarrow>
          (case body (Suc 0) of
             (Inr v, t1) \<Rightarrow> (Inr (Some v), t0 @ [Log msg, Sleep 5000] @ t1)
           | (Inl e1, t1) \<Rightarrow>
               (case body (Suc (Suc 0)) of
                  (Inr v, t2) \<Rightarrow>
                    (Inr (Some v), t0 @ [Log msg, Sleep 5000] @ t1 @ [Log msg, Sleep 5000] @ t2)
                | (Inl e2, t2) \<Rightarrow>
                    (Inl e2, t0 @ [Log msg, Sleep 5000] @ t1 @ [Log msg, Sleep 5000] @ t2))))"
proof -
  obtain r0 t0 where b0: "body 0 = (r0, t0)" by (cases "body 0")
  obtain r1 t1 where b1: "body (Suc 0) = (r1, t1)" by (cases "body (Suc 0)")
  obtain r2 t2 where b2: "body (Suc (Suc 0)) = (r2, t2)" by (cases "body (Suc (Suc 0))")
  show ?thesis
    by (cases r0; cases r1; cases r2)
       (simp_all add: b0 b1 b2 retry_step [of body msg _ 0] retry_step [of body msg _ "Suc 0"]
          retry_step [of body msg _ "Suc (Suc 0)"] io_after_pair)
qed

lemma retry_three:
  "retry_loop body msg maxRetries 0 =
     (case body 0 of
        (Inr v, t0) \<Rightarrow> (Inr (Some v), t0)
      | (Inl e0, t0) \<Rightarrow>
          (case body 1 of
             (Inr v, t1) \<Rightarrow> (Inr (Some v), t0 @ [Log msg, Sleep 5000] @ t1)
           | (Inl e1, t1) \<Rightarrow>
               (case body 2 of
                  (Inr v, t2) \<Rightarrow>
                    (Inr (Some v), t0 @ [Log msg, Sleep 5000] @ t1 @ [Log msg, Sleep 5000] @ t2)
                | (Inl e2, t2) \<Rightarrow>
                    (Inl e2, t0 @ [Log msg, Sleep 5000] @ t1 @ [Log msg, Sleep 5000] @ t2))))"
  unfolding maxRetries_def numeral_3_eq_3 numeral_2_eq_2 One_nat_def
  by (rule retry_three_Suc)

text \<open>
  Claim C1.  For every body of the retry loop, with at most three attempts and a delay
  of 5 seconds between them: when the attempts before attempt \<open>k\<close> fail and attempt \<open>k\<close>
  succeeds, the loop returns that value and stops, after one log and one delay for each
  failed attempt and no further attempt, so a success on the third attempt comes after
  exactly two delayed retries; when all three attempts fail, the loop has made exactly
  three attempts and two delays and the third failure goes to the caller.  The two
  blocks of \<open>src/index.ts\<close> are given with their traces: the mint returns the NFT of
  the successful attempt, the upload returns its URI, every URI that is not empty.
\<close>

theorem retrying_caller:
  fixes w :: "'w index_world_scheme"
  shows
   "(k < maxRetries \<and> fst (body k) = Inr v \<and> (\<forall>j<k. \<exists>e. fst (body j) = Inl e) \<longrightarrow>
       retry_loop body msg maxRetries 0 =
         (Inr (Some v),
          concat (map (\<lambda>j. snd (body j) @ [Log msg, Sleep 5000]) [0..<k]) @ snd (body k)))
  \<and> ((\<forall>j<maxRetries. \<exists>e. fst (body j) = Inl e) \<and> fst (body 2) = Inl e2 \<longrightarrow>
       retry_loop body msg maxRetries 0 =
         (Inl e2,
          snd (body 0) @ [Log msg, Sleep 5000] @ snd (body 1) @ [Log msg, Sleep 5000] @ snd (body 2)))
  \<and> (nfts_create w 0 = Inl e0 \<and> nfts_create w 1 = Inl e1 \<and> nfts_create w 2 = Inr n \<longrightarrow>
       mint_nft w =
         (Inr n,
          [Call ''nfts.create'' [], Log ''Minting failed, retrying...'', Sleep 5000,
           Call ''nfts.create'' [], Log ''Minting failed, retrying...'', Sleep 5000,
           Call ''nfts.create'' []]))
  \<and> (nfts_create w 0 = Inl e0 \<and> nfts_create w 1 = Inl e1 \<and> nfts_create w 2 = Inl e2 \<longrightarrow>
       mint_nft w =
         (Inl e2,
          [Call ''nfts.create'' [], Log ''Minting failed, retrying...'', Sleep 5000,
           Call ''nfts.create'' [], Log ''Minting failed, retrying...'', Sleep 5000,
           Call ''nfts.create'' []]))
  \<and> (nfts_create w 0 = Inl e0 \<and> nfts_create w 1 = Inr n \<longrightarrow>
       mint_nft w =
         (Inr n,
          [Call ''nfts.create'' [], Log ''Minting failed, retrying...'', Sleep 5000,
           Call ''nfts.create'' []]))
  \<and> (nfts_create w 0 = Inr n \<longrightarrow> mint_nft w = (Inr n, [Call ''nfts.create'' []]))
  \<and> (storage_upload w 0 = Inl e0 \<and> storage_upload w 1 = Inl e1 \<and> storage_upload w 2 = Inr uri \<longrightarrow>
       upload_image w =
         (if uri = [] then Inl (Error ''Failed to upload image after all retries'') else Inr uri,
          [Call ''storage.upload'' [], Log ''Upload failed, retrying...'', Sleep 5000,
           Call ''storage.upload'' [], Log ''Upload failed, retrying...'', Sleep 5000,
           Call ''storage.upload'' [], Log ''Image uploaded:'']))
  \<and> (storage_upload w 0 = Inl e0 \<and> storage_upload w 1 = Inl e1 \<and> storage_upload w 2 = Inl e2 \<longrightarrow>
       upload_image w =
         (Inl e2,
          [Call ''storage.upload'' [], Log ''Upload failed, retrying...'', Sleep 5000,
           Call ''storage.upload'' [], Log ''Upload failed, retrying...'', Sleep 5000,
           Call ''storage.upload'' []]))
  \<and> (storage_upload w 0 = Inl e0 \<and> storage_upload w 1 = Inr uri \<longrightarrow>
       upload_image w =
         (if uri = [] then Inl (Error ''Failed to upload image after all retries'') else Inr uri,
          [Call ''storage.upload'' [], Log ''Upload failed, retrying...'', Sleep 5000,
           Call ''storage.upload'' [], Log ''Image uploaded:'']))
  \<and> (storage_upload w 0 = Inr uri \<longrightarrow>
       upload_image w =
         (if uri = [] then Inl (Error ''Failed to upload image after all retries'') else Inr uri,
          [Call ''storage.upload'' [], Log ''Image uploaded:'']))"
proof -
  have g1: "k < maxRetries \<and> fst (body k) = Inr v \<and> (\<forall>j<k. \<exists>e. fst (body j) = Inl e) \<longrightarrow>
       retry_loop body msg maxRetries 0 =
         (Inr (Some v),
          concat (map (\<lambda>j. snd (body j) @ [Log msg, Sleep 5000]) [0..<k]) @ snd (body k))"
    using retry_loop_success [of k maxRetries body v 0 msg] by blast
  have g2: "(\<forall>j<maxRetries. \<exists>e. fst (body j) = Inl e) \<and> fst (body 2) = Inl e2 \<longrightarrow>
       retry_loop body msg maxRetries 0 =
         (Inl e2,
          snd (body 0) @ [Log msg, Sleep 5000] @ snd (body 1) @ [Log msg, Sleep 5000] @ snd (body 2))"
  proof
    assume a: "(\<forall>j<maxRetries. \<exists>e. fst (body j) = Inl e) \<and> fst (body 2) = Inl e2"
    then have "\<exists>e. fst (body 0) = Inl e" and "\<exists>e. fst (body 1) = Inl e"
      by (simp_all add: maxRetries_def)
    then obtain e0 e1 where "fst (body 0) = Inl e0" "fst (body 1) = Inl e1"
      by blast
    then show "retry_loop body msg maxRetries 0 =
         (Inl e2,
          snd (body 0) @ [Log msg, Sleep 5000] @ snd (body 1) @ [Log msg, Sleep 5000] @ snd (body 2))"
      using a by (cases "body 0"; cases "body 1"; cases "body 2") (simp add: retry_three)
  qed
  have m: "mint_nft w =
      (case retry_loop (mint_attempt w) ''Minting failed, retrying...'' maxRetries 0 of
         (Inl e, t) \<Rightarrow> (Inl e, t)
       | (Inr None, t) \<Rightarrow> (Inl (Error ''Failed to mint NFT after all retries''), t)
       | (Inr (Some n), t) \<Rightarrow> (Inr n, t))"
    by (simp add: mint_nft_def io_bind_def io_simps split: prod.split sum.split option.split)
  have u: "upload_image w =
      (case retry_loop (upload_attempt w) ''Upload failed, retrying...'' maxRetries 0 of
         (Inl e, t) \<Rightarrow> (Inl e, t)
       | (Inr None, t) \<Rightarrow> (Inl (Error ''Failed to upload image after all retries''), t)
       | (Inr (Some uri), t) \<Rightarrow>
           (if uri = [] then Inl (Error ''Failed to upload image after all retries'') else Inr uri, t))"
    by (simp add: upload_image_def io_bind_def io_simps split: prod.split sum.split option.split)
  have m1: "nfts_create w 0 = Inl e0 \<and> nfts_create w 1 = Inl e1 \<and> nfts_create w 2 = Inr n \<longrightarrow>
       mint_nft w =
         (Inr n,
          [Call ''nfts.create'' [], Log ''Minting failed, retrying...'', Sleep 5000,
           Call ''nfts.create'' [], Log ''Minting failed, retrying...'', Sleep 5000,
           Call ''nfts.create'' []])"
    by (simp add: m retry_three mint_attempt_eq)
  have m2: "nfts_create w 0 = Inl e0 \<and> nfts_create w 1 = Inl e1 \<and> nfts_create w 2 = Inl e2 \<longrightarrow>
       mint_nft w =
         (Inl e2,
          [Call ''nfts.create'' [], Log ''Minting failed, retrying...'', Sleep 5000,
           Call ''nfts.create'' [], Log ''Minting failed, retrying...'', Sleep 5000,
           Call ''nfts.create'' []])"
    by (simp add: m retry_three mint_attempt_eq)
  have m3: "nfts_create w 0 = Inl e0 \<and> nfts_create w 1 = Inr n \<longrightarrow>
       mint_nft w =
         (Inr n,
          [Call ''nfts.create'' [], Log ''Minting failed, retrying...'', Sleep 5000,
           Call ''nfts.create'' []])"
    by (simp add: m retry_three mint_attempt_eq)
  have m4: "nfts_create w 0 = Inr n \<longrightarrow> mint_nft w = (Inr n, [Call ''nfts.create'' []])"
    by (simp add: m retry_three mint_attempt_eq)
  have u1: "storage_upload w 0 = Inl e0 \<and> storage_upload w 1 = Inl e1 \<and> storage_upload w 2 = Inr uri \<longrightarrow>
       upload_image w =
         (if uri = [] then Inl (Error ''Failed to upload image after all retries'') else Inr uri,
          [Call ''storage.upload'' [], Log ''Upload failed, retrying...'', Sleep 5000,
           Call ''storage.upload'' [], Log ''Upload failed, retrying...'', Sleep 5000,
           Call ''storage.upload'' [], Log ''Image uploaded:''])"
    by (simp add: u retry_three upload_attempt_eq)
  have u2: "storage_upload w 0 = Inl e0 \<and> storage_upload w 1 = Inl e1 \<and> storage_upload w 2 = Inl e2 \<longrightarrow>
       upload_image w =
         (Inl e2,
          [Call ''storage.upload'' [], Log ''Upload failed, retrying...'', Sleep 5000,
           Call ''storage.upload'' [], Log ''Upload failed, retrying...'', Sleep 5000,
           Call ''storage.upload'' []])"
    by (simp add: u retry_three upload_attempt_eq)
  have u3: "storage_upload w 0 = Inl e0 \<and> storage_upload w 1 = Inr uri \<longrightarrow>
       upload_image w =
         (if uri = [] then Inl (Error ''Failed to upload image after all retries'') else Inr uri,
          [Call ''storage.upload'' [], Log ''Upload failed, retrying...'', Sleep 5000,
           Call ''storage.upload'' [], Log ''Image uploaded:''])"
    by (simp add: u retry_three upload_attempt_eq)
  have u4: "storage_upload w 0 = Inr uri \<longrightarrow>
       upload_image w =
         (if uri = [] then Inl (Error ''Failed to upload image after all retries'') else Inr uri,
          [Call ''storage.upload'' [], Log ''Image uploaded:''])"
    by (simp add: u retry_three upload_attempt_eq)
  show ?thesis
    using g1 g2 m1 m2 m3 m4 u1 u2 u3 u4 by (intro conjI)
qed

theorem retrying_caller_witness:
  "upload_image (index_with (third_time ''https://arweave.net/image'') (third_time (Nft ''mint''))) =
     (Inr ''https://arweave.net/image'',
      [Call ''storage.upload'' [], Log ''Upload failed, retrying...'', Sleep 5000,
       Call ''storage.upload'' [], Log ''Upload failed, retrying...'', Sleep 5000,
       Call ''storage.upload'' [], Log ''Image uploaded:''])
 \<and> mint_nft (index_with (third_time ''https://arweave.net/image'') (third_time (Nft ''mint''))) =
     (Inr (Nft ''mint''),
      [Call ''nfts.create'' [], Log ''Minting failed, retrying...'', Sleep 5000,
       Call ''nfts.create'' [], Log ''Minting failed, retrying...'', Sleep 5000,
       Call ''nfts.create'' []])
 \<and> mint_nft (index_with (third_time ''https://arweave.net/image'') (\<lambda>k. Inl timeout)) =
     (Inl timeout,
      [Call ''nfts.create'' [], Log ''Minting failed, retrying...'', Sleep 5000,
       Call ''nfts.create'' [], Log ''Minting failed, retrying...'', Sleep 5000,
       Call ''nfts.create'' []])"
  using retrying_caller [of 2 "mint_attempt (index_with (third_time ''https://arweave.net/image'') (third_time (Nft ''mint'')))"
          "Nft ''mint''" "''Minting failed, retrying...''" timeout
          "index_with (third_time ''https://arweave.net/image'') (third_time (Nft ''mint''))"
          timeout timeout "Nft ''mint''" "''https://arweave.net/image''"]
        retrying_caller [of 0 "mint_attempt (index_with (third_time ''https://arweave.net/image'') (\<lambda>k. Inl timeout))"
          "Nft ''mint''" "''Minting failed, retrying...''" timeout
          "index_with (third_time ''https://arweave.net/image'') (\<lambda>k. Inl timeout)"
          timeout timeout "Nft ''mint''" "''https://arweave.net/image''"]
  by (simp add: index_with_def third_time_def)

section \<open>The batch loop of the compressed-NFT script\<close>



lemma logged_append: "logged (t @ t') = logged t @ logged t'"
  by (induction t rule: logged.induct) simp_all


lemma io_then_ok:
  assumes "fst m = Inr ()"
  shows "io_then m n = (fst n, snd m @ snd n)"
  using assms by (cases m; cases n) (simp add: io_then_def io_bind_def io_after_def)

lemma mint_item:
  "io_catch (mint_try w k address) mint_failed =
     (Inr (),
      Call ''publicKey'' [address] #
      (case publicKey w k of
         Some e \<Rightarrow> snd (mint_failed e)
       | None \<Rightarrow>
           Call ''mintV1'' [address] #
           (case mintV1 w k of
              Some e \<Rightarrow> snd (mint_failed e)
            | None \<Rightarrow>
                Call ''sendAndConfirm'' [address] #
                (case sendAndConfirm w k of
                   Some e \<Rightarrow> snd (mint_failed e)
                 | None \<Rightarrow> [Log ''Minted NFT for address:'']))))"
  by (simp add: mint_try_def mint_failed_def attempt_def io_simps
        split: option.split error.split)

lemma mint_failed_trace:
  "fst (mint_failed e) = Inr ()"
  "sleeps (snd (mint_failed e)) = []"
  "schedule (snd (mint_failed e)) = []"
  "calls nm (snd (mint_failed e)) = []"
  "count_list (logged (snd (mint_failed e))) ''Failed to mint NFT for address:'' = 1"
  "count_list (logged (snd (mint_failed e))) ''Minted NFT for address:'' = 0"
  by (simp_all add: mint_failed_def io_simps split: error.split option.split)

lemma mint_item_fst: "fst (io_catch (mint_try w k address) mint_failed) = Inr ()"
  by (simp add: mint_item)






lemma mint_item_minted:
  "count_list (logged (snd (io_catch (mint_try w k address) mint_failed)))
     ''Minted NFT for address:'' = (if mint_outcome w k = None then 1 else 0)"
  by (simp add: mint_item mint_failed_trace mint_outcome_def split: option.split)


lemma mint_batch_snd:
  "snd (mint_batch w k (a # as)) =
     snd (io_catch (mint_try w k a) mint_failed) @ snd (mint_batch w (k + 1) as)"
  by (simp add: io_then_ok mint_item_fst)




lemma count_list_append: "count_list (xs @ ys) x = count_list xs x + count_list ys x"
  by (induction xs) simp_all


lemma mint_batch_minted:
  "count_list (logged (snd (mint_batch w k as))) ''Minted NFT for address:'' =
     length (filter (\<lambda>j. mint_outcome w j = None) [k..<k + length as])"
proof (induction as arbitrary: k)
  case Nil
  then show ?case by (simp add: io_return_def)
next
  case (Cons a as)
  have "[k..<k + length (a # as)] = k # [k + 1..<(k + 1) + length as]"
    using upt_conv_Cons [of k "k + length (a # as)"] by simp
  then show ?case
    using Cons.IH [of "k + 1"]
    by (simp add: mint_batch_snd logged_append count_list_append mint_item_minted
          del: mint_batch.simps(2))
qed



















section \<open>A recipient whose mint fails\<close>










section \<open>The extraction of addresses\<close>

lemma is_solana_wallet_eq:
  "is_solana_wallet x =
     (if x = JNull then Inl (TypeError ''Cannot read properties of null'') else Inr (wallet_entry x))"
  by (cases x) (auto simp: is_solana_wallet_def)

lemma find_account_first:
  assumes "\<forall>x \<in> set pre. \<not> wallet_entry x \<and> x \<noteq> JNull" and "wallet_entry entry"
  shows "find_account (pre @ entry # post) = Inr (Some entry)"
  using assms by (induction pre) (auto simp: is_solana_wallet_eq)

lemma find_account_found:
  assumes "find_account accounts = Inr (Some entry)"
  shows "wallet_entry entry \<and> entry \<in> set accounts"
  using assms
  by (induction accounts) (auto simp: is_solana_wallet_eq split: if_splits bool.splits)

lemma find_account_none:
  assumes "\<not> list_ex wallet_entry accounts"
  shows "find_account accounts \<noteq> Inr (Some entry)"
  using assms find_account_found [of accounts entry] by (auto simp: list_ex_iff)

lemma extractSolanaAddress_eq:
  "extractSolanaAddress parse linkedAccounts =
     (case extract_try parse linkedAccounts of
        Inl e \<Rightarrow> (Inr None, [Log ''Error parsing linked accounts:'', Log ''Problematic JSON:''])
      | Inr address \<Rightarrow> (Inr address, []))"
  by (simp add: extractSolanaAddress_def io_simps split: sum.split)

lemma fst_io_bind:
  "fst (io_bind m f) = (case fst m of Inl e \<Rightarrow> Inl e | Inr x \<Rightarrow> fst (f x))"
  by (cases m) (simp add: io_bind_def io_after_def split: sum.split)

lemma fst_extractSolanaAddress:
  "fst (extractSolanaAddress parse linkedAccounts) =
     Inr (case extract_try parse linkedAccounts of Inl e \<Rightarrow> None | Inr address \<Rightarrow> address)"
  by (simp add: extractSolanaAddress_eq split: sum.split)

lemma fst_map_records: "fst (map_records parse records) = Inr (map (user_of_row parse) records)"
  by (induction records)
     (simp_all add: fst_io_bind fst_extractSolanaAddress io_return_def user_of_row_def)

lemma fst_readUsersFromCSV:
  "fst (readUsersFromCSV parse w) =
     (case readFileSync_csv w of
        Some e \<Rightarrow> Inl e
      | None \<Rightarrow> (case csv_parse w of Inl e \<Rightarrow> Inl e | Inr records \<Rightarrow> Inr (users_of parse records)))"
  by (simp add: readUsersFromCSV_def fst_io_bind fst_map_records call_def attempt_def
        io_return_def users_of_def split: option.split sum.split)

lemma readUsersFromCSV_ok:
  assumes "readFileSync_csv w = None" and "csv_parse w = Inr records"
  shows "\<exists>t. readUsersFromCSV parse w = (Inr (users_of parse records), t)"
  using assms fst_readUsersFromCSV [of parse w]
  by (cases "readUsersFromCSV parse w") simp

lemma extract_try_found:
  assumes "parse (normalizedJson linked) = Inr (JArr (pre @ entry # post))"
    and "wallet_entry entry"
    and "\<forall>x \<in> set pre. \<not> wallet_entry x \<and> x \<noteq> JNull"
  shows "extract_try parse (Some linked) = get_prop entry ''address''"
proof -
  have "find_account (pre @ entry # post) = Inr (Some entry)"
    using assms(2,3) by (simp add: find_account_first)
  moreover have "optional_address (Some entry) = get_prop entry ''address''"
    using assms(2) by (cases entry) simp_all
  ultimately show ?thesis
    using assms(1) by (simp add: extract_try_def)
qed

lemma extract_try_lacks:
  assumes "parse (normalizedJson linked) = Inr v" and "\<not> has_wallet_entry v"
  shows "extract_try parse (Some linked) = Inr None \<or> (\<exists>e. extract_try parse (Some linked) = Inl e)"
proof (cases v)
  case (JArr accounts)
  then have "\<not> list_ex wallet_entry accounts" using assms(2) by simp
  then have "\<And>entry. find_account accounts \<noteq> Inr (Some entry)"
    by (rule find_account_none)
  then have "find_account accounts = Inr None \<or> (\<exists>e. find_account accounts = Inl e)"
    by (cases "find_account accounts") auto
  then show ?thesis using assms(1) JArr by (auto simp: extract_try_def)
qed (use assms(1) in \<open>simp_all add: extract_try_def\<close>)

lemma users_of_append: "users_of parse (xs @ ys) = users_of parse xs @ users_of parse ys"
  by (simp add: users_of_def)

lemma users_of_excluded:
  assumes "solanaAddress (user_of_row parse record) = None"
  shows "users_of parse (before @ record # after) = users_of parse (before @ after)"
  using assms by (simp add: users_of_def)

text \<open>
  Claim C3, as the code has it, for every parser.  Let the normalised text of a row parse
  as an array that holds an entry with \<open>type == "wallet"\<close> and \<open>chain_type == "solana"\<close>.
  When no \<open>null\<close> entry stands before the first such entry and that entry has an
  \<open>address\<close>, the extractor returns the address of that first entry, without logging,
  and the row gives the record of its \<open>id\<close> and that address in the output of
  \<open>readUsersFromCSV\<close>.
\<close>

theorem address_extractor:
  fixes w :: "'w csv_world_scheme"
  assumes "record ''linked_accounts'' = Some linked"
    and "parse (normalizedJson linked) = Inr (JArr (pre @ entry # post))"
    and "wallet_entry entry"
    and "\<forall>x \<in> set pre. \<not> wallet_entry x \<and> x \<noteq> JNull"
    and "get_prop entry ''address'' = Inr (Some address)"
  shows "extractSolanaAddress parse (record ''linked_accounts'') = (Inr (Some address), [])
       \<and> users_of parse [record] = [\<lparr> user_id = record ''id'', solanaAddress = Some address \<rparr>]
       \<and> (readFileSync_csv w = None \<and> csv_parse w = Inr records \<and> record \<in> set records \<longrightarrow>
            (\<exists>users t. readUsersFromCSV parse w = (Inr users, t)
               \<and> \<lparr> user_id = record ''id'', solanaAddress = Some address \<rparr> \<in> set users))"
proof -
  have ex: "extract_try parse (record ''linked_accounts'') = Inr (Some address)"
    using extract_try_found [of parse linked pre entry post] assms by simp
  have a: "extractSolanaAddress parse (record ''linked_accounts'') = (Inr (Some address), [])"
    by (simp add: extractSolanaAddress_eq ex)
  have u: "user_of_row parse record = \<lparr> user_id = record ''id'', solanaAddress = Some address \<rparr>"
    by (simp add: user_of_row_def ex)
  have b: "users_of parse [record] = [\<lparr> user_id = record ''id'', solanaAddress = Some address \<rparr>]"
    by (simp add: users_of_def u)
  have c: "readFileSync_csv w = None \<and> csv_parse w = Inr records \<and> record \<in> set records \<longrightarrow>
            (\<exists>users t. readUsersFromCSV parse w = (Inr users, t)
               \<and> \<lparr> user_id = record ''id'', solanaAddress = Some address \<rparr> \<in> set users)"
  proof
    assume h: "readFileSync_csv w = None \<and> csv_parse w = Inr records \<and> record \<in> set records"
    then obtain t where t: "readUsersFromCSV parse w = (Inr (users_of parse records), t)"
      using readUsersFromCSV_ok [of w records parse] by blast
    have "user_of_row parse record \<in> user_of_row parse ` set records"
      using h by blast
    then have "user_of_row parse record \<in> set (users_of parse records)"
      using u by (simp add: users_of_def)
    then show "\<exists>users t. readUsersFromCSV parse w = (Inr users, t)
               \<and> \<lparr> user_id = record ''id'', solanaAddress = Some address \<rparr> \<in> set users"
      using t u by auto
  qed
  show ?thesis using a b c by blast
qed

lemma parse_sample:
  "JSON_parse (normalizedJson sample_accounts) =
     Inr (JArr [JObj [(''type'', JStr ''wallet''), (''chain_type'', JStr ''solana''),
                      (''address'', JStr ''AbC123'')],
                JObj [(''type'', JStr ''email'')]])"
  by code_simp

lemma parse_no_address:
  "JSON_parse (normalizedJson no_address_accounts) =
     Inr (JArr [JObj [(''type'', JStr ''wallet''), (''chain_type'', JStr ''solana'')]])"
  by code_simp

lemma parse_null_first:
  "JSON_parse (normalizedJson null_first_accounts) =
     Inr (JArr [JNull,
                JObj [(''type'', JStr ''wallet''), (''chain_type'', JStr ''solana''),
                      (''address'', JStr ''AbC123'')]])"
  by code_simp

lemma parse_empty_address:
  "JSON_parse (normalizedJson empty_address_accounts) =
     Inr (JArr [JObj [(''type'', JStr ''wallet''), (''chain_type'', JStr ''solana''),
                      (''address'', JStr [])]])"
  by code_simp

lemma parse_email:
  "JSON_parse (normalizedJson email_accounts) =
     Inr (JArr [JObj [(''type'', JStr ''email''), (''address'', JStr ''a@example.org'')]])"
  by code_simp

lemma parse_broken:
  "JSON_parse (normalizedJson broken_accounts) = Inl (SyntaxError ''Unexpected token in JSON'')"
  by code_simp

text \<open>
  The row of the specification: \<open>id\<close> 42 with a Solana wallet \<open>AbC123\<close> and an email.
\<close>

theorem address_extractor_witness:
  "users_of JSON_parse [row ''42'' sample_accounts] =
     [\<lparr> user_id = Some ''42'', solanaAddress = Some (JStr ''AbC123'') \<rparr>]
 \<and> fst (readUsersFromCSV JSON_parse (collection_with [row ''42'' sample_accounts] first_fails)) =
     Inr [\<lparr> user_id = Some ''42'', solanaAddress = Some (JStr ''AbC123'') \<rparr>]"
proof -
  have "users_of JSON_parse [row ''42'' sample_accounts] =
     [\<lparr> user_id = row ''42'' sample_accounts ''id'', solanaAddress = Some (JStr ''AbC123'') \<rparr>]"
    using address_extractor [of "row ''42'' sample_accounts" sample_accounts JSON_parse "[]"
            "JObj [(''type'', JStr ''wallet''), (''chain_type'', JStr ''solana''),
                   (''address'', JStr ''AbC123'')]"
            "[JObj [(''type'', JStr ''email'')]]" "JStr ''AbC123''"
            "collection_with [row ''42'' sample_accounts] first_fails" "[]"]
    by (simp add: row_def parse_sample)
  then show ?thesis
    by (simp add: fst_readUsersFromCSV collection_with_def row_def)
qed

text \<open>
  Two rows whose normalised text parses as an array with a Solana wallet entry and that
  give no record: the entry of the first has no \<open>address\<close>; in the second a \<open>None\<close>
  stands before the entry, and the callback of \<open>find\<close> throws on it.
\<close>

theorem address_extractor_counterexample:
  "JSON_parse (normalizedJson no_address_accounts) =
     Inr (JArr [JObj [(''type'', JStr ''wallet''), (''chain_type'', JStr ''solana'')]])
 \<and> fst (readUsersFromCSV JSON_parse (collection_with [row ''7'' no_address_accounts] first_fails)) = Inr []
 \<and> JSON_parse (normalizedJson null_first_accounts) =
     Inr (JArr [JNull,
                JObj [(''type'', JStr ''wallet''), (''chain_type'', JStr ''solana''),
                      (''address'', JStr ''AbC123'')]])
 \<and> fst (readUsersFromCSV JSON_parse (collection_with [row ''8'' null_first_accounts] first_fails)) = Inr []"
  by (simp add: parse_no_address parse_null_first fst_readUsersFromCSV collection_with_def row_def
        users_of_def user_of_row_def extract_try_def is_solana_wallet_def)

lemma wallet_try_lacks:
  assumes "parse (jsonStr linked) = Inr v" and "\<not> has_wallet_entry v"
  shows "wallet_try parse (Some linked) = Inr None \<or> (\<exists>e. wallet_try parse (Some linked) = Inl e)"
proof (cases v)
  case (JArr accounts)
  then have "\<not> list_ex wallet_entry accounts" using assms(2) by simp
  then have "\<And>entry. find_account accounts \<noteq> Inr (Some entry)"
    by (rule find_account_none)
  then have "find_account accounts = Inr None \<or> (\<exists>e. find_account accounts = Inl e)"
    by (cases "find_account accounts") auto
  then show ?thesis using assms(1) JArr by (auto simp: wallet_try_def)
qed (use assms(1) in \<open>simp_all add: wallet_try_def\<close>)

lemma wallet_of_row_eq:
  "wallet_of_row parse record =
     (case wallet_try parse (record ''linked_accounts'') of
        Inl e \<Rightarrow> (Inr None, [Log ''Error parsing linked_accounts:'', Log ''Problematic JSON string:''])
      | Inr pushed \<Rightarrow> (Inr pushed, []))"
  by (simp add: wallet_of_row_def io_simps split: sum.split)

lemma fst_extract_rows:
  "fst (extract_rows parse solanaAddresses records) =
     Inr (solanaAddresses @ concat (map (pushed_of_row parse) records))"
proof (induction records arbitrary: solanaAddresses)
  case Nil
  then show ?case by (simp add: io_return_def)
next
  case (Cons r rs)
  show ?case
    by (cases "wallet_try parse (r ''linked_accounts'')")
       (simp_all add: fst_io_bind wallet_of_row_eq Cons.IH pushed_of_row_def split: option.split)
qed

text \<open>
  Claim C4, for every parser.  A row whose normalised text does not parse gives
  \<open>undefined\<close>, with the two lines logged by the \<open>catch\<close>; a row whose text parses to a
  value without a Solana wallet entry gives \<open>undefined\<close> too.  Either row is left out:
  the output is the one of the same rows without it.  The extraction itself never ends
  with an error: once the file is read and split into rows, \<open>readUsersFromCSV\<close> returns
  the records of the rows that have an address.  The same holds for the loop of the
  compressed script, which pushes nothing for such a row and returns the addresses of
  the others.
\<close>

theorem bad_row_excluded:
  fixes w :: "'w csv_world_scheme"
  shows "(record ''linked_accounts'' = Some linked \<and> parse (normalizedJson linked) = Inl e \<longrightarrow>
            extractSolanaAddress parse (record ''linked_accounts'') =
              (Inr None, [Log ''Error parsing linked accounts:'', Log ''Problematic JSON:''])
          \<and> users_of parse (before @ record # after) = users_of parse (before @ after))
       \<and> (record ''linked_accounts'' = Some linked \<and> parse (normalizedJson linked) = Inr v
            \<and> \<not> has_wallet_entry v \<longrightarrow>
            fst (extractSolanaAddress parse (record ''linked_accounts'')) = Inr None
          \<and> users_of parse (before @ record # after) = users_of parse (before @ after))
       \<and> (readFileSync_csv w = None \<and> csv_parse w = Inr records \<longrightarrow>
            fst (readUsersFromCSV parse w) = Inr (users_of parse records))
       \<and> (record ''linked_accounts'' = Some linked \<and> parse (jsonStr linked) = Inl e \<longrightarrow>
            wallet_of_row parse record =
              (Inr None, [Log ''Error parsing linked_accounts:'', Log ''Problematic JSON string:''])
          \<and> pushed_of_row parse record = [])
       \<and> (record ''linked_accounts'' = Some linked \<and> parse (jsonStr linked) = Inr v
            \<and> \<not> has_wallet_entry v \<longrightarrow>
            fst (wallet_of_row parse record) = Inr None
          \<and> pushed_of_row parse record = [])
       \<and> fst (extract_rows parse [] records) = Inr (concat (map (pushed_of_row parse) records))"
proof -
  have a: "record ''linked_accounts'' = Some linked \<and> parse (normalizedJson linked) = Inl e \<longrightarrow>
            extractSolanaAddress parse (record ''linked_accounts'') =
              (Inr None, [Log ''Error parsing linked accounts:'', Log ''Problematic JSON:''])
          \<and> users_of parse (before @ record # after) = users_of parse (before @ after)"
  proof
    assume h: "record ''linked_accounts'' = Some linked \<and> parse (normalizedJson linked) = Inl e"
    then have ex: "extract_try parse (record ''linked_accounts'') = Inl e"
      by (simp add: extract_try_def)
    then have "solanaAddress (user_of_row parse record) = None"
      by (simp add: user_of_row_def)
    then show "extractSolanaAddress parse (record ''linked_accounts'') =
              (Inr None, [Log ''Error parsing linked accounts:'', Log ''Problematic JSON:''])
          \<and> users_of parse (before @ record # after) = users_of parse (before @ after)"
      using ex by (simp add: extractSolanaAddress_eq users_of_excluded)
  qed
  have b: "record ''linked_accounts'' = Some linked \<and> parse (normalizedJson linked) = Inr v
            \<and> \<not> has_wallet_entry v \<longrightarrow>
            fst (extractSolanaAddress parse (record ''linked_accounts'')) = Inr None
          \<and> users_of parse (before @ record # after) = users_of parse (before @ after)"
  proof
    assume h: "record ''linked_accounts'' = Some linked \<and> parse (normalizedJson linked) = Inr v
            \<and> \<not> has_wallet_entry v"
    then have ex: "extract_try parse (record ''linked_accounts'') = Inr None
        \<or> (\<exists>e. extract_try parse (record ''linked_accounts'') = Inl e)"
      using extract_try_lacks [of parse linked v] by simp
    then have none: "solanaAddress (user_of_row parse record) = None"
      by (auto simp: user_of_row_def)
    have "fst (extractSolanaAddress parse (record ''linked_accounts'')) = Inr None"
      using ex by (auto simp: fst_extractSolanaAddress)
    then show "fst (extractSolanaAddress parse (record ''linked_accounts'')) = Inr None
          \<and> users_of parse (before @ record # after) = users_of parse (before @ after)"
      using none by (simp add: users_of_excluded)
  qed
  have c: "readFileSync_csv w = None \<and> csv_parse w = Inr records \<longrightarrow>
            fst (readUsersFromCSV parse w) = Inr (users_of parse records)"
    by (simp add: fst_readUsersFromCSV)
  have d: "record ''linked_accounts'' = Some linked \<and> parse (jsonStr linked) = Inl e \<longrightarrow>
            wallet_of_row parse record =
              (Inr None, [Log ''Error parsing linked_accounts:'', Log ''Problematic JSON string:''])
          \<and> pushed_of_row parse record = []"
    by (simp add: wallet_of_row_eq wallet_try_def pushed_of_row_def)
  have e: "record ''linked_accounts'' = Some linked \<and> parse (jsonStr linked) = Inr v
            \<and> \<not> has_wallet_entry v \<longrightarrow>
            fst (wallet_of_row parse record) = Inr None
          \<and> pushed_of_row parse record = []"
  proof
    assume h: "record ''linked_accounts'' = Some linked \<and> parse (jsonStr linked) = Inr v
            \<and> \<not> has_wallet_entry v"
    then have "wallet_try parse (record ''linked_accounts'') = Inr None
        \<or> (\<exists>e. wallet_try parse (record ''linked_accounts'') = Inl e)"
      using wallet_try_lacks [of parse linked v] by simp
    then show "fst (wallet_of_row parse record) = Inr None \<and> pushed_of_row parse record = []"
      by (auto simp: wallet_of_row_eq pushed_of_row_def)
  qed
  have f: "fst (extract_rows parse [] records) = Inr (concat (map (pushed_of_row parse) records))"
    by (simp add: fst_extract_rows)
  show ?thesis using a b c d e f by (intro conjI)
qed

lemma users_of_sample:
  "users_of JSON_parse [row ''42'' sample_accounts] =
     [\<lparr> user_id = Some ''42'', solanaAddress = Some (JStr ''AbC123'') \<rparr>]"
  by (simp add: users_of_def user_of_row_def extract_try_def row_def parse_sample
        is_solana_wallet_def)

lemma parse_jsonStr_sample:
  "JSON_parse (jsonStr sample_accounts) =
     Inr (JArr [JObj [(''type'', JStr ''wallet''), (''chain_type'', JStr ''solana''),
                      (''address'', JStr ''AbC123'')],
                JObj [(''type'', JStr ''email'')]])"
  by code_simp

lemma parse_jsonStr_email:
  "JSON_parse (jsonStr email_accounts) =
     Inr (JArr [JObj [(''type'', JStr ''email''), (''address'', JStr ''a@example.org'')]])"
  by code_simp

lemma parse_jsonStr_broken:
  "JSON_parse (jsonStr broken_accounts) = Inl (SyntaxError ''Unexpected token in JSON'')"
  by code_simp

lemma pushed_of_sample:
  "pushed_of_row JSON_parse (row ''42'' sample_accounts) = [Some (JStr ''AbC123'')]"
  by (simp add: pushed_of_row_def wallet_try_def row_def parse_jsonStr_sample is_solana_wallet_def)

theorem bad_row_excluded_witness:
  "users_of JSON_parse
     [row ''42'' sample_accounts, row ''5'' broken_accounts, row ''6'' email_accounts] =
     [\<lparr> user_id = Some ''42'', solanaAddress = Some (JStr ''AbC123'') \<rparr>]
 \<and> fst (readUsersFromCSV JSON_parse
          (collection_with [row ''42'' sample_accounts, row ''5'' broken_accounts,
                            row ''6'' email_accounts] first_fails)) =
     Inr [\<lparr> user_id = Some ''42'', solanaAddress = Some (JStr ''AbC123'') \<rparr>]
 \<and> fst (extract_rows JSON_parse []
          [row ''42'' sample_accounts, row ''5'' broken_accounts, row ''6'' email_accounts]) =
     Inr [Some (JStr ''AbC123'')]"
proof -
  let ?rows = "[row ''42'' sample_accounts, row ''5'' broken_accounts, row ''6'' email_accounts]"
  let ?w = "collection_with ?rows first_fails"
  note broken =
    bad_row_excluded [of "row ''5'' broken_accounts" broken_accounts JSON_parse
      "SyntaxError ''Unexpected token in JSON''" "[row ''42'' sample_accounts]"
      "[row ''6'' email_accounts]" JNull ?w ?rows]
  note email =
    bad_row_excluded [of "row ''6'' email_accounts" email_accounts JSON_parse
      "SyntaxError ''Unexpected token in JSON''" "[row ''42'' sample_accounts]" "[]"
      "JArr [JObj [(''type'', JStr ''email''), (''address'', JStr ''a@example.org'')]]" ?w ?rows]
  have u1: "users_of JSON_parse
          ([row ''42'' sample_accounts] @ row ''5'' broken_accounts # [row ''6'' email_accounts]) =
        users_of JSON_parse ([row ''42'' sample_accounts] @ [row ''6'' email_accounts])"
    using broken by (simp add: row_def parse_broken)
  have u2: "users_of JSON_parse ([row ''42'' sample_accounts] @ row ''6'' email_accounts # []) =
        users_of JSON_parse ([row ''42'' sample_accounts] @ [])"
    using email by (simp add: row_def parse_email)
  have u: "users_of JSON_parse ?rows =
      [\<lparr> user_id = Some ''42'', solanaAddress = Some (JStr ''AbC123'') \<rparr>]"
    using u1 u2 by (simp add: users_of_sample)
  have r: "fst (readUsersFromCSV JSON_parse ?w) = Inr (users_of JSON_parse ?rows)"
    using broken by (simp add: collection_with_def)
  have p1: "pushed_of_row JSON_parse (row ''5'' broken_accounts) = []"
    using broken by (simp add: row_def parse_jsonStr_broken)
  have p2: "pushed_of_row JSON_parse (row ''6'' email_accounts) = []"
    using email by (simp add: row_def parse_jsonStr_email)
  have x: "fst (extract_rows JSON_parse [] ?rows) = Inr [Some (JStr ''AbC123'')]"
    using broken by (simp add: p1 p2 pushed_of_sample)
  show ?thesis using u r x by simp
qed

text \<open>
  Claim C7, as the code has it.  \<open>readUsersFromCSV\<close> keeps the records whose address is
  not \<open>undefined\<close>: every record it returns has an address.  The address is whatever the
  entry holds; it may be the empty string.
\<close>

theorem defined_addresses:
  fixes w :: "'w csv_world_scheme"
  shows "(\<forall>u \<in> set (users_of parse records). solanaAddress u \<noteq> None)
       \<and> (fst (readUsersFromCSV parse w) = Inr users \<longrightarrow>
            (\<forall>u \<in> set users. solanaAddress u \<noteq> None))"
proof -
  have a: "\<forall>u \<in> set (users_of parse records). solanaAddress u \<noteq> None" for records
    by (simp add: users_of_def)
  have "fst (readUsersFromCSV parse w) = Inr users \<longrightarrow> (\<exists>rs. users = users_of parse rs)"
    by (auto simp: fst_readUsersFromCSV split: option.splits sum.splits)
  then show ?thesis using a by blast
qed

theorem defined_addresses_witness:
  "list_all (\<lambda>u. solanaAddress u \<noteq> None)
     (users_of JSON_parse [row ''42'' sample_accounts, row ''6'' email_accounts])
 \<and> fst (readUsersFromCSV JSON_parse
           (collection_with [row ''42'' sample_accounts, row ''6'' email_accounts] first_fails)) =
     Inr [\<lparr> user_id = Some ''42'', solanaAddress = Some (JStr ''AbC123'') \<rparr>]"
proof -
  have r: "fst (readUsersFromCSV JSON_parse
           (collection_with [row ''42'' sample_accounts, row ''6'' email_accounts] first_fails)) =
     Inr (users_of JSON_parse [row ''42'' sample_accounts, row ''6'' email_accounts])"
    by (simp add: fst_readUsersFromCSV collection_with_def)
  have u: "users_of JSON_parse [row ''42'' sample_accounts, row ''6'' email_accounts] =
      [\<lparr> user_id = Some ''42'', solanaAddress = Some (JStr ''AbC123'') \<rparr>]"
    by (simp add: users_of_def user_of_row_def extract_try_def row_def parse_sample parse_email
          is_solana_wallet_def)
  show ?thesis
    using defined_addresses [of JSON_parse "[row ''42'' sample_accounts, row ''6'' email_accounts]"
            "collection_with [row ''42'' sample_accounts, row ''6'' email_accounts] first_fails"
            "users_of JSON_parse [row ''42'' sample_accounts, row ''6'' email_accounts]"] r
    by (simp add: list_all_iff u)
qed

text \<open>
  A row whose Solana wallet entry has the address \<open>''\<close>: the record is returned, with the
  empty string as its address.
\<close>

theorem defined_addresses_counterexample:
  "fst (readUsersFromCSV JSON_parse (collection_with [row ''9'' empty_address_accounts] first_fails)) =
     Inr [\<lparr> user_id = Some ''9'', solanaAddress = Some (JStr []) \<rparr>]"
  by (simp add: fst_readUsersFromCSV collection_with_def users_of_def user_of_row_def
        extract_try_def row_def parse_empty_address is_solana_wallet_def)

lemma user_id_of_row: "user_id (user_of_row parse r) = r ''id''"
  by (simp add: user_of_row_def)

lemma users_of_indices:
  "users_of parse records =
     map (\<lambda>i. user_of_row parse (records ! i))
       (filter (\<lambda>i. solanaAddress (user_of_row parse (records ! i)) \<noteq> None) [0..<length records])"
proof -
  have "map (\<lambda>i. user_of_row parse (records ! i)) [0..<length records] =
          map (user_of_row parse) (map (\<lambda>i. records ! i) [0..<length records])"
    by (simp add: o_def)
  also have "\<dots> = map (user_of_row parse) records"
    by (simp add: map_nth)
  finally have m: "map (user_of_row parse) records =
          map (\<lambda>i. user_of_row parse (records ! i)) [0..<length records]"
    by simp
  show ?thesis
    unfolding users_of_def by (subst m) (simp add: filter_map o_def)
qed

text \<open>
  Claim C10.  Whenever \<open>readUsersFromCSV\<close> returns, its output is made of the records of
  the rows, one record for each row that is kept, in the order of the rows: the output is
  a subsequence of the records of all rows, its ids are a subsequence of the ids of the
  rows, it is no longer than the list of rows, and there is a strictly increasing list of
  row positions such that the records returned are those of the rows at these positions,
  each with the \<open>id\<close> of its row.
\<close>

theorem extraction_order:
  fixes w :: "'w csv_world_scheme"
  assumes "fst (readUsersFromCSV parse w) = Inr users"
  shows "\<exists>records. csv_parse w = Inr records
           \<and> users = users_of parse records
           \<and> subseq users (map (user_of_row parse) records)
           \<and> subseq (map user_id users) (map (\<lambda>r. r ''id'') records)
           \<and> length users \<le> length records
           \<and> (\<exists>is. sorted_wrt (<) is \<and> list_all (\<lambda>i. i < length records) is
                  \<and> users = map (\<lambda>i. user_of_row parse (records ! i)) is
                  \<and> map user_id users = map (\<lambda>i. (records ! i) ''id'') is)"
proof -
  have "\<exists>records. csv_parse w = Inr records \<and> users = users_of parse records"
    using assms unfolding fst_readUsersFromCSV
    by (cases "readFileSync_csv w"; cases "csv_parse w") auto
  then obtain records where rs: "csv_parse w = Inr records" and us: "users = users_of parse records"
    by blast
  let ?is = "filter (\<lambda>i. solanaAddress (user_of_row parse (records ! i)) \<noteq> None) [0..<length records]"
  have s1: "subseq users (map (user_of_row parse) records)"
    by (simp add: us users_of_def)
  have "subseq (map user_id users) (map user_id (map (user_of_row parse) records))"
    using s1 by (rule subseq_map)
  then have s2: "subseq (map user_id users) (map (\<lambda>r. r ''id'') records)"
    by (simp add: user_id_of_row o_def)
  have l: "length users \<le> length records"
    by (simp add: us users_of_def)
  have i1: "sorted_wrt (<) ?is"
    by (rule sorted_wrt_filter) simp
  have i2: "list_all (\<lambda>i. i < length records) ?is"
    by (simp add: list_all_iff)
  have i3: "users = map (\<lambda>i. user_of_row parse (records ! i)) ?is"
    by (simp add: us users_of_indices)
  have i4: "map user_id users = map (\<lambda>i. (records ! i) ''id'') ?is"
    by (subst i3) (simp add: user_id_of_row o_def)
  have inner: "\<exists>is. sorted_wrt (<) is \<and> list_all (\<lambda>i. i < length records) is
                  \<and> users = map (\<lambda>i. user_of_row parse (records ! i)) is
                  \<and> map user_id users = map (\<lambda>i. (records ! i) ''id'') is"
    using i1 i2 i3 i4 by (intro exI [of _ ?is] conjI)
  show ?thesis
    using rs us s1 s2 l inner by (intro exI [of _ records] conjI)
qed

theorem extraction_order_witness:
  "fst (readUsersFromCSV JSON_parse
          (collection_with [row ''5'' broken_accounts, row ''42'' sample_accounts,
                            row ''6'' email_accounts, row ''43'' sample_accounts] first_fails)) =
     Inr [\<lparr> user_id = Some ''42'', solanaAddress = Some (JStr ''AbC123'') \<rparr>,
          \<lparr> user_id = Some ''43'', solanaAddress = Some (JStr ''AbC123'') \<rparr>]
 \<and> subseq [Some ''42'', Some ''43''] [Some ''5'', Some ''42'', Some ''6'', Some ''43'']"
proof -
  let ?rows = "[row ''5'' broken_accounts, row ''42'' sample_accounts,
                row ''6'' email_accounts, row ''43'' sample_accounts]"
  let ?users = "[\<lparr> user_id = Some ''42'', solanaAddress = Some (JStr ''AbC123'') \<rparr>,
                 \<lparr> user_id = Some ''43'', solanaAddress = Some (JStr ''AbC123'') \<rparr>]"
  have r: "fst (readUsersFromCSV JSON_parse (collection_with ?rows first_fails)) = Inr ?users"
    by (simp add: fst_readUsersFromCSV collection_with_def users_of_def user_of_row_def
          extract_try_def row_def parse_sample parse_email parse_broken is_solana_wallet_def)
  have "\<exists>records. csv_parse (collection_with ?rows first_fails) = Inr records
           \<and> subseq (map user_id ?users) (map (\<lambda>r. r ''id'') records)"
    using extraction_order [OF r] by blast
  then have "subseq (map user_id ?users) (map (\<lambda>r. r ''id'') ?rows)"
    by (simp add: collection_with_def)
  then show ?thesis using r by (simp add: row_def)
qed

section \<open>The normalisation is not aware of strings\<close>

lemma set_replaceAll: "set (replaceAll pat rep s) \<subseteq> set s \<union> set rep"
proof (induction pat rep s rule: replaceAll.induct)
  case (1 pat rep)
  then show ?case by simp
next
  case (2 pat rep c cs)
  show ?case
  proof (cases "pat \<noteq> [] \<and> prefix pat (c # cs)")
    case True
    have "set (drop (length pat) (c # cs)) \<subseteq> set (c # cs)"
      by (rule set_drop_subset)
    then show ?thesis using True "2.IH"(1) by auto
  next
    case False
    then show ?thesis using "2.IH"(2) by auto
  qed
qed

lemma replaceAll_char:
  "replaceAll [a] [b] s = map (\<lambda>c. if c = a then b else c) s"
  by (induction s) auto

lemma replaceAll_match:
  assumes "pat \<noteq> [] \<and> prefix pat (c # cs)"
  shows "replaceAll pat rep (c # cs) = rep @ replaceAll pat rep (drop (length pat) (c # cs))"
  using assms by simp

lemma replaceAll_skip:
  assumes "\<not> (pat \<noteq> [] \<and> prefix pat (c # cs))"
  shows "replaceAll pat rep (c # cs) = c # replaceAll pat rep cs"
  using assms by auto

lemma apart_tl:
  assumes "apart (d # q) rep"
  shows "apart q rep"
  using assms by (simp add: apart_def)

lemma apart_self:
  assumes "apart q rep" and "q \<noteq> []"
  shows "\<not> prefix q rep \<and> \<not> prefix rep q"
  using assms by (cases q) (simp_all add: apart_def)

lemma prefix_replaceAll:
  assumes "apart q rep" and "prefix q (replaceAll pat rep s)"
  shows "prefix q s"
  using assms
proof (induction pat rep s arbitrary: q rule: replaceAll.induct)
  case (1 pat rep)
  then show ?case by simp
next
  case (2 pat rep c cs)
  show ?case
  proof (cases q)
    case Nil
    then show ?thesis by simp
  next
    case (Cons d q')
    show ?thesis
    proof (cases "pat \<noteq> [] \<and> prefix pat (c # cs)")
      case True
      have "prefix q (rep @ replaceAll pat rep (drop (length pat) (c # cs)))"
        using "2.prems"(2) replaceAll_match [OF True, of rep] by simp
      then have "prefix q rep \<or> prefix rep q"
        by (auto simp: prefix_append)
      then show ?thesis using apart_self [OF "2.prems"(1)] Cons by simp
    next
      case False
      have "prefix (d # q') (c # replaceAll pat rep cs)"
        using "2.prems"(2) Cons replaceAll_skip [OF False, of rep] by simp
      then have dc: "d = c" and p: "prefix q' (replaceAll pat rep cs)"
        by simp_all
      have "apart q' rep" using "2.prems"(1) Cons apart_tl by blast
      then have "prefix q' cs" using "2.IH"(2) False p by blast
      then show ?thesis using Cons dc by simp
    qed
  qed
qed

lemma occurs_Nil: "occurs [] s"
  by (cases s) simp_all

lemma occurs_drop:
  assumes "occurs q (drop n s)"
  shows "occurs q s"
  using assms
proof (induction s arbitrary: n)
  case Nil
  then show ?case by simp
next
  case (Cons c cs)
  then show ?case by (cases n) auto
qed

lemma occurs_behind:
  assumes "occurs q (rep @ t)" and "q \<noteq> []" and "hd q \<notin> set rep"
  shows "occurs q t"
  using assms
proof (induction rep)
  case Nil
  then show ?case by simp
next
  case (Cons r rs)
  have "\<not> prefix q (r # rs @ t)"
    using Cons.prems(2,3) by (cases q) auto
  then show ?case using Cons by simp
qed

text \<open>Replacing \<open>pat\<close> leaves no occurrence of \<open>pat\<close> behind.\<close>

lemma replaceAll_removes:
  assumes "pat \<noteq> []" and "hd pat \<notin> set rep" and "apart (tl pat) rep"
  shows "\<not> occurs pat (replaceAll pat rep s)"
  using assms
proof (induction pat rep s rule: replaceAll.induct)
  case (1 pat rep)
  then show ?case by simp
next
  case (2 pat rep c cs)
  show ?case
  proof (cases "pat \<noteq> [] \<and> prefix pat (c # cs)")
    case True
    then have "\<not> occurs pat (replaceAll pat rep (drop (length pat) (c # cs)))"
      using "2.IH"(1) "2.prems" by blast
    then have "\<not> occurs pat (rep @ replaceAll pat rep (drop (length pat) (c # cs)))"
      using occurs_behind "2.prems"(1,2) by blast
    then show ?thesis using replaceAll_match [OF True, of rep] by simp
  next
    case False
    then have ih: "\<not> occurs pat (replaceAll pat rep cs)"
      using "2.IH"(2) "2.prems" by blast
    have "\<not> prefix pat (c # replaceAll pat rep cs)"
    proof
      assume a: "prefix pat (c # replaceAll pat rep cs)"
      have t: "prefix (tl pat) (replaceAll pat rep cs)" and h: "hd pat = c"
        using a "2.prems"(1) by (cases pat; simp)+
      have "prefix (tl pat) cs"
        using prefix_replaceAll [OF "2.prems"(3) t] .
      then have "prefix pat (c # cs)"
        using h "2.prems"(1) by (cases pat) simp_all
      then show False using False "2.prems"(1) by simp
    qed
    then show ?thesis using replaceAll_skip [OF False, of rep] ih by simp
  qed
qed

text \<open>Replacing \<open>pat\<close> brings no occurrence of another text \<open>q\<close> about.\<close>

lemma replaceAll_keeps:
  assumes "q \<noteq> []" and "hd q \<notin> set rep" and "apart q rep" and "\<not> occurs q s"
  shows "\<not> occurs q (replaceAll pat rep s)"
  using assms
proof (induction pat rep s rule: replaceAll.induct)
  case (1 pat rep)
  then show ?case by simp
next
  case (2 pat rep c cs)
  show ?case
  proof (cases "pat \<noteq> [] \<and> prefix pat (c # cs)")
    case True
    have "\<not> occurs q (drop (length pat) (c # cs))"
      using "2.prems"(4) occurs_drop by blast
    then have "\<not> occurs q (replaceAll pat rep (drop (length pat) (c # cs)))"
      using "2.IH"(1) True "2.prems"(1,2,3) by blast
    then have "\<not> occurs q (rep @ replaceAll pat rep (drop (length pat) (c # cs)))"
      using occurs_behind "2.prems"(1,2) by blast
    then show ?thesis using replaceAll_match [OF True, of rep] by simp
  next
    case False
    have "\<not> occurs q cs" using "2.prems"(4) by simp
    then have ih: "\<not> occurs q (replaceAll pat rep cs)"
      using "2.IH"(2) False "2.prems"(1,2,3) by blast
    have "\<not> prefix q (c # replaceAll pat rep cs)"
    proof
      assume a: "prefix q (c # replaceAll pat rep cs)"
      obtain d q' where q: "q = d # q'" using "2.prems"(1) by (cases q) auto
      have dc: "d = c" and p: "prefix q' (replaceAll pat rep cs)" using a q by simp_all
      have "apart q' rep" using "2.prems"(3) q apart_tl by blast
      then have "prefix q' cs"
        using prefix_replaceAll p by blast
      then have "prefix q (c # cs)" using q dc by simp
      then show False using "2.prems"(4) by simp
    qed
    then show ?thesis using replaceAll_skip [OF False, of rep] ih by simp
  qed
qed

lemma apart_words:
  "apart ''rue'' ''true''" "apart ''alse'' ''false''" "apart ''one'' ''null''"
  "apart ''True'' ''false''" "apart ''True'' ''null''" "apart ''False'' ''null''"
  "apart ''None'' ''false''" "apart ''None'' ''true''" "apart ''False'' ''true''"
  by (simp_all add: apart_def)

lemma no_True: "\<not> occurs ''True'' (replaceAll ''True'' ''true'' s)"
  by (rule replaceAll_removes) (simp_all add: apart_words)

lemma no_False: "\<not> occurs ''False'' (replaceAll ''False'' ''false'' s)"
  by (rule replaceAll_removes) (simp_all add: apart_words)

lemma no_None: "\<not> occurs ''None'' (replaceAll ''None'' ''null'' s)"
  by (rule replaceAll_removes) (simp_all add: apart_words)

lemma keep_True_False:
  "\<not> occurs ''True'' s \<Longrightarrow> \<not> occurs ''True'' (replaceAll ''False'' ''false'' s)"
  by (rule replaceAll_keeps) (simp_all add: apart_words)

lemma keep_True_None:
  "\<not> occurs ''True'' s \<Longrightarrow> \<not> occurs ''True'' (replaceAll ''None'' ''null'' s)"
  by (rule replaceAll_keeps) (simp_all add: apart_words)

lemma keep_False_None:
  "\<not> occurs ''False'' s \<Longrightarrow> \<not> occurs ''False'' (replaceAll ''None'' ''null'' s)"
  by (rule replaceAll_keeps) (simp_all add: apart_words)

lemma keep_None_False:
  "\<not> occurs ''None'' s \<Longrightarrow> \<not> occurs ''None'' (replaceAll ''False'' ''false'' s)"
  by (rule replaceAll_keeps) (simp_all add: apart_words)

lemma keep_None_True:
  "\<not> occurs ''None'' s \<Longrightarrow> \<not> occurs ''None'' (replaceAll ''True'' ''true'' s)"
  by (rule replaceAll_keeps) (simp_all add: apart_words)

lemma keep_False_True:
  "\<not> occurs ''False'' s \<Longrightarrow> \<not> occurs ''False'' (replaceAll ''True'' ''true'' s)"
  by (rule replaceAll_keeps) (simp_all add: apart_words)

lemma no_squote: "squote \<notin> set (replaceAll [squote] [dquote] s)"
  by (auto simp: replaceAll_char squote_def dquote_def)

lemma keep_squote:
  assumes "squote \<notin> set s" and "squote \<notin> set rep"
  shows "squote \<notin> set (replaceAll pat rep s)"
  using assms set_replaceAll [of pat rep s] by blast

lemma squote_words:
  "squote \<notin> set ''true''" "squote \<notin> set ''false''" "squote \<notin> set ''null''"
  by (simp_all add: squote_def)

lemma normalizedJson_squote: "squote \<notin> set (normalizedJson s)"
  unfolding normalizedJson_def
  by (intro keep_squote no_squote squote_words)

lemma jsonStr_squote: "squote \<notin> set (jsonStr s)"
  unfolding jsonStr_def
  by (intro keep_squote no_squote squote_words)

lemma normalizedJson_clean:
  "\<not> occurs ''True'' (normalizedJson s)"
  "\<not> occurs ''False'' (normalizedJson s)" "\<not> occurs ''None'' (normalizedJson s)"
  unfolding normalizedJson_def
  by (simp_all add: no_None keep_False_None no_False keep_True_None keep_True_False no_True)

lemma jsonStr_clean:
  "\<not> occurs ''True'' (jsonStr s)"
  "\<not> occurs ''False'' (jsonStr s)" "\<not> occurs ''None'' (jsonStr s)"
  unfolding jsonStr_def
  by (simp_all add: no_True keep_False_True no_False keep_None_True keep_None_False no_None)

lemma replaceAll_head:
  assumes "pat \<noteq> []"
  shows "replaceAll pat rep (pat @ s) = rep @ replaceAll pat rep s"
  using assms by (cases pat) simp_all

lemma parse_none_address:
  "JSON_parse (normalizedJson none_address_accounts) =
     Inr (JArr [JObj [(''type'', JStr ''wallet''), (''chain_type'', JStr ''solana''),
                      (''address'', JStr ''So1nullXyz'')]])"
  by code_simp

lemma parse_jsonStr_none_address:
  "JSON_parse (jsonStr none_address_accounts) =
     Inr (JArr [JObj [(''type'', JStr ''wallet''), (''chain_type'', JStr ''solana''),
                      (''address'', JStr ''So1nullXyz'')]])"
  by code_simp

lemma parse_apostrophe:
  "JSON_parse (normalizedJson apostrophe_accounts) = Inl (SyntaxError ''Unexpected token in JSON'')"
  by code_simp

lemma parse_jsonStr_apostrophe:
  "JSON_parse (jsonStr apostrophe_accounts) = Inl (SyntaxError ''Unexpected token in JSON'')"
  by code_simp

lemma occurs_none_address: "occurs ''So1NoneXyz'' none_address_accounts"
  by (simp add: none_address_accounts_def)

text \<open>
  Claim C9.  The normalisation of both scripts works on the characters of the text and
  knows nothing of JSON strings: in its result no single quote is left and none of the
  texts \<open>True\<close>, \<open>False\<close>, \<open>None\<close> occurs anywhere; every single quote has become a
  double quote, and an occurrence of a pattern is replaced whatever stands behind it.
  Hence an address that holds \<open>None\<close> is not the address returned: for the wallet
  \<open>So1NoneXyz\<close> both scripts obtain \<open>So1nullXyz\<close>.  An address with an apostrophe
  ends the JSON string early: the text no longer parses and the row is dropped.
\<close>

theorem global_normalisation:
  "squote \<notin> set (normalizedJson s)
 \<and> \<not> occurs ''True'' (normalizedJson s)
 \<and> \<not> occurs ''False'' (normalizedJson s)
 \<and> \<not> occurs ''None'' (normalizedJson s)
 \<and> squote \<notin> set (jsonStr s)
 \<and> \<not> occurs ''True'' (jsonStr s)
 \<and> \<not> occurs ''False'' (jsonStr s)
 \<and> \<not> occurs ''None'' (jsonStr s)
 \<and> replaceAll [squote] [dquote] s = map (\<lambda>c. if c = squote then dquote else c) s
 \<and> (pat \<noteq> [] \<longrightarrow> replaceAll pat rep (pat @ s) = rep @ replaceAll pat rep s)
 \<and> occurs ''So1NoneXyz'' none_address_accounts
 \<and> users_of JSON_parse [row ''1'' none_address_accounts] =
     [\<lparr> user_id = Some ''1'', solanaAddress = Some (JStr ''So1nullXyz'') \<rparr>]
 \<and> pushed_of_row JSON_parse (row ''1'' none_address_accounts) = [Some (JStr ''So1nullXyz'')]
 \<and> users_of JSON_parse [row ''2'' apostrophe_accounts] = []
 \<and> pushed_of_row JSON_parse (row ''2'' apostrophe_accounts) = []"
proof -
  have a: "users_of JSON_parse [row ''1'' none_address_accounts] =
     [\<lparr> user_id = Some ''1'', solanaAddress = Some (JStr ''So1nullXyz'') \<rparr>]"
    by (simp add: users_of_def user_of_row_def extract_try_def row_def parse_none_address
          is_solana_wallet_def)
  have b: "pushed_of_row JSON_parse (row ''1'' none_address_accounts) = [Some (JStr ''So1nullXyz'')]"
    by (simp add: pushed_of_row_def wallet_try_def row_def parse_jsonStr_none_address
          is_solana_wallet_def)
  have c: "users_of JSON_parse [row ''2'' apostrophe_accounts] = []"
    by (simp add: users_of_def user_of_row_def extract_try_def row_def parse_apostrophe)
  have d: "pushed_of_row JSON_parse (row ''2'' apostrophe_accounts) = []"
    by (simp add: pushed_of_row_def wallet_try_def row_def parse_jsonStr_apostrophe)
  have e: "pat \<noteq> [] \<longrightarrow> replaceAll pat rep (pat @ s) = rep @ replaceAll pat rep s"
    using replaceAll_head [of pat rep s] by blast
  show ?thesis
    using normalizedJson_squote [of s] normalizedJson_clean [of s] jsonStr_squote [of s]
      jsonStr_clean [of s] replaceAll_char [of squote dquote s] a b c d e occurs_none_address
    by (intro conjI)
qed

theorem global_normalisation_witness:
  "\<not> occurs ''None'' (normalizedJson none_address_accounts)
 \<and> squote \<notin> set (normalizedJson apostrophe_accounts)
 \<and> replaceAll ''None'' ''null'' (''None'' @ ''Xyz'') = ''null'' @ replaceAll ''None'' ''null'' ''Xyz''
 \<and> replaceAll ''None'' ''null'' ''So1NoneXyz'' = ''So1nullXyz''"
  using global_normalisation [of none_address_accounts "''None''" "''null''"]
        global_normalisation [of apostrophe_accounts "''None''" "''null''"]
        global_normalisation [of "''Xyz''" "''None''" "''null''"]
  by simp

end
